theory Spec2Isabelle
  imports Main "HOL-Library.Sublist"
begin

section \<open>The token refresh daemon: a model of the TypeScript sources\<close>

text \<open>
  The development follows the four source files: the token manager
  (\<^verbatim>\<open>token-manager.ts\<close>), the daemon process (\<^verbatim>\<open>token-refresh-daemon.ts\<close>),
  the controller running in the caller's process (\<^verbatim>\<open>daemon-controller.ts\<close>) and the
  read-only monitoring server (\<^verbatim>\<open>token-refresh-server.ts\<close>).

  Conventions of the model.
  \<^item> An instant is an integer, the milliseconds since the epoch that \<^verbatim>\<open>Date.now()\<close>
    returns. An ISO-8601 string produced by \<^verbatim>\<open>toISOString()\<close> is represented by the
    instant it denotes; the representable range of \<^verbatim>\<open>Date\<close> is not modelled.
  \<^item> Numbers of the configuration (\<^verbatim>\<open>refreshIntervalMinutes\<close>, \<^verbatim>\<open>maxRuntimeHours\<close>)
    are integers.
  \<^item> What the outside world answers (the authentication handshake, the exit codes of
    \<^verbatim>\<open>git\<close> and \<^verbatim>\<open>gh\<close>, how long a tick takes, whether a signalled process exits) is an
    explicit argument of the function that consumes it.
  \<^item> An exception is a value: a function that can throw returns \<open>error + result\<close>
    together with the state reached when it threw.
  \<^item> The three files of the status channel sit at fixed paths; reading, writing and
    unlinking an existing file succeeds. Log output is modelled only where a function
    reads it back (\<^verbatim>\<open>getLogs\<close>).
  \<^item> A process can end at any moment. Where the code probes a process and then
    signals it, the outside world says whether the process ended in between.
  \<^item> Each process runs its code in sequence; a theorem speaks of every state of the
    machine and every answer of the outside world that its hypotheses admit.
\<close>

type_synonym instant = int

datatype error =
    AuthRejected
  | NoInstallationToken
  | GitConfigFailed
  | GhLoginFailed
  | GhSetupGitFailed
  | SpawnFailed
  | ESRCH

subsection \<open>token-manager.ts\<close>

text \<open>
  \<^verbatim>\<open>TokenInfo\<close>. The record of the authentication library carries the same three
  properties, each of which may be missing; an empty token string is falsy in the
  source and is kept as a string here, a missing or empty \<^verbatim>\<open>expiresAt\<close> is \<open>None\<close>.
\<close>

record TokenInfo =
  token :: string
  expiresAt :: instant
  installationId :: int

record AuthResult =
  auth_token :: "string option"
  auth_expiresAt :: "instant option"
  auth_installationId :: "int option"

datatype auth_outcome = Rejected | Resolved AuthResult

record TokenManager =
  currentToken :: "TokenInfo option"

definition TokenManager_new :: TokenManager where
  "TokenManager_new = \<lparr>currentToken = None\<rparr>"

text \<open>\<^verbatim>\<open>!("token" in authResult) || !authResult.token\<close>\<close>

definition no_usable_token :: "AuthResult \<Rightarrow> bool" where
  "no_usable_token r = (case auth_token r of None \<Rightarrow> True | Some t \<Rightarrow> t = [])"

text \<open>
  \<^verbatim>\<open>getToken\<close>: \<open>now\<close> is the value of \<^verbatim>\<open>Date.now()\<close> when the handshake has
  answered. The \<^verbatim>\<open>catch\<close> block logs and rethrows, so both throwing paths return
  the manager as it was.
\<close>

definition getToken ::
  "instant \<Rightarrow> auth_outcome \<Rightarrow> TokenManager \<Rightarrow> (error + TokenInfo) \<times> TokenManager" where
  "getToken now outcome tm =
     (case outcome of
        Rejected \<Rightarrow> (Inl AuthRejected, tm)
      | Resolved authResult \<Rightarrow>
          if no_usable_token authResult then (Inl NoInstallationToken, tm)
          else
            let tokenInfo =
                  \<lparr>token = the (auth_token authResult),
                   expiresAt =
                     (case auth_expiresAt authResult of
                        Some e \<Rightarrow> e
                      | None \<Rightarrow> now + 60 * 60 * 1000),
                   installationId =
                     (case auth_installationId authResult of
                        Some i \<Rightarrow> (if i = 0 then 0 else i)
                      | None \<Rightarrow> 0)\<rparr>
            in (Inr tokenInfo, tm\<lparr>currentToken := Some tokenInfo\<rparr>))"

text \<open>\<^verbatim>\<open>needsRefresh\<close>: the five-minute margin of the manager.\<close>

definition fiveMinutes :: int where
  "fiveMinutes = 5 * 60 * 1000"

definition needsRefresh :: "instant \<Rightarrow> TokenManager \<Rightarrow> bool" where
  "needsRefresh now tm =
     (case currentToken tm of
        None \<Rightarrow> True
      | Some t \<Rightarrow> expiresAt t \<le> now + fiveMinutes)"

definition getCurrentToken ::
  "instant \<Rightarrow> auth_outcome \<Rightarrow> TokenManager \<Rightarrow> (error + TokenInfo) \<times> TokenManager" where
  "getCurrentToken now outcome tm =
     (if needsRefresh now tm then getToken now outcome tm
      else case currentToken tm of
             None \<Rightarrow> getToken now outcome tm
           | Some t \<Rightarrow> (Inr t, tm))"

subsection \<open>Strings\<close>

text \<open>
  The text of the log file and of the pid file is looked at one character at a time
  (\<^verbatim>\<open>split\<close>, \<^verbatim>\<open>trim\<close>, \<^verbatim>\<open>parseInt\<close>), so it is modelled as the source has it: a
  sequence of UTF-16 code units, each given by its number. \<open>utf16\<close> gives the code
  units of a literal of the source whose characters are all ASCII. Tokens and status
  words, which the code only compares and passes on, stay character strings.
\<close>

type_synonym js_string = "int list"

definition utf16 :: "string \<Rightarrow> js_string" where
  "utf16 s = map of_char s"

text \<open>
  The code units that \<^verbatim>\<open>String.prototype.trim\<close> strips and \<^verbatim>\<open>parseInt\<close> skips:
  ECMAScript's \<^verbatim>\<open>WhiteSpace\<close> (tab, vertical tab, form feed, space, no-break space
  U+00A0, the byte order mark U+FEFF and the space separators U+1680, U+2000 to
  U+200A, U+202F, U+205F, U+3000) and \<^verbatim>\<open>LineTerminator\<close> (line feed, carriage
  return, U+2028, U+2029).
\<close>

definition is_space :: "int \<Rightarrow> bool" where
  "is_space u =
     (u = 0x09 \<or> u = 0x0A \<or> u = 0x0B \<or> u = 0x0C \<or> u = 0x0D \<or> u = 0x20
      \<or> u = 0xA0 \<or> u = 0x1680 \<or> (0x2000 \<le> u \<and> u \<le> 0x200A)
      \<or> u = 0x2028 \<or> u = 0x2029 \<or> u = 0x202F \<or> u = 0x205F \<or> u = 0x3000
      \<or> u = 0xFEFF)"

definition js_trim :: "js_string \<Rightarrow> js_string" where
  "js_trim s = rev (dropWhile is_space (rev (dropWhile is_space s)))"

text \<open>\<^verbatim>\<open>s.split("\n")\<close>: the pieces between the line feeds; never the empty list.\<close>

fun split_nl :: "js_string \<Rightarrow> js_string list" where
  "split_nl [] = [[]]"
| "split_nl (u # us) =
     (if u = 0x0A then [] # split_nl us
      else (u # hd (split_nl us)) # tl (split_nl us))"

text \<open>\<^verbatim>\<open>lines.join("\n")\<close>\<close>

fun join_nl :: "js_string list \<Rightarrow> js_string" where
  "join_nl [] = []"
| "join_nl [l] = l"
| "join_nl (l # m # ls) = l @ 0x0A # join_nl (m # ls)"

text \<open>\<^verbatim>\<open>xs.slice(start)\<close>: a negative start counts from the end.\<close>

definition slice_from :: "int \<Rightarrow> 'a list \<Rightarrow> 'a list" where
  "slice_from start xs =
     (let len = int (length xs);
          k = (if start < 0 then max (len + start) 0 else min start len)
      in drop (nat k) xs)"

text \<open>The filter \<^verbatim>\<open>(line) => line.trim()\<close>: a line is kept when its trim is not empty.\<close>

definition nonblank :: "js_string \<Rightarrow> bool" where
  "nonblank line = (js_trim line \<noteq> [])"

text \<open>
  A number as \<^verbatim>\<open>parseInt\<close> returns it. The source holds a double: an integer of
  magnitude up to \<open>2\<^sup>5\<^sup>3\<close> is held exactly (\<open>Exact\<close>); of a larger one the source holds
  a rounding, whose digits the model does not compute (\<open>Inexact\<close>).
\<close>

datatype js_number = NaN | Exact int | Inexact

text \<open>
  \<^verbatim>\<open>parseInt(s, 10)\<close>: leading white space, an optional sign, then the longest run of
  decimal digits.
\<close>

definition is_digit :: "int \<Rightarrow> bool" where
  "is_digit u = (0x30 \<le> u \<and> u \<le> 0x39)"

definition digits_value :: "js_string \<Rightarrow> int" where
  "digits_value ds = foldl (\<lambda>acc u. 10 * acc + (u - 0x30)) 0 ds"

definition parseInt :: "js_string \<Rightarrow> js_number" where
  "parseInt s =
     (let s1 = dropWhile is_space s;
          negative = (case s1 of u # _ \<Rightarrow> u = 0x2D | [] \<Rightarrow> False);
          s2 = (case s1 of u # us \<Rightarrow> (if u = 0x2D \<or> u = 0x2B then us else s1)
                         | [] \<Rightarrow> []);
          ds = takeWhile is_digit s2;
          v = digits_value ds
      in if ds = [] then NaN
         else if 2 ^ 53 < v then Inexact
         else Exact (if negative then - v else v))"

text \<open>\<^verbatim>\<open>pid.toString()\<close> of an integer.\<close>

fun decimal :: "nat \<Rightarrow> js_string" where
  "decimal n =
     (if n < 10 then [0x30 + int n]
      else decimal (n div 10) @ [0x30 + int (n mod 10)])"

definition toString :: "int \<Rightarrow> js_string" where
  "toString i = (if i < 0 then 0x2D # decimal (nat (- i)) else decimal (nat i))"

subsection \<open>The status channel\<close>

text \<open>
  \<^verbatim>\<open>DaemonStatus\<close>, as all three files declare it. The \<^verbatim>\<open>status\<close> field is a
  string: the file is JSON, and the monitoring server has a branch for a status that
  is none of the three the type lists.
\<close>

record DaemonStatus =
  pid :: int
  startTime :: instant
  status :: string
  lastRefresh :: "instant option"
  nextRefresh :: "instant option"
  refreshCount :: int

text \<open>\<^verbatim>\<open>Partial<DaemonStatus>\<close>: the keys an update carries.\<close>

record StatusUpdates =
  set_pid :: "int option"
  set_startTime :: "instant option"
  set_status :: "string option"
  set_lastRefresh :: "instant option"
  set_nextRefresh :: "instant option"
  set_refreshCount :: "int option"

definition no_updates :: StatusUpdates where
  "no_updates = \<lparr>set_pid = None, set_startTime = None, set_status = None,
     set_lastRefresh = None, set_nextRefresh = None, set_refreshCount = None\<rparr>"

text \<open>\<^verbatim>\<open>{ ...currentStatus, ...updates }\<close>\<close>

definition overlay :: "DaemonStatus \<Rightarrow> StatusUpdates \<Rightarrow> DaemonStatus" where
  "overlay cur upd =
     \<lparr>pid = (case set_pid upd of Some v \<Rightarrow> v | None \<Rightarrow> pid cur),
      startTime = (case set_startTime upd of Some v \<Rightarrow> v | None \<Rightarrow> startTime cur),
      status = (case set_status upd of Some v \<Rightarrow> v | None \<Rightarrow> status cur),
      lastRefresh = (case set_lastRefresh upd of Some v \<Rightarrow> Some v | None \<Rightarrow> lastRefresh cur),
      nextRefresh = (case set_nextRefresh upd of Some v \<Rightarrow> Some v | None \<Rightarrow> nextRefresh cur),
      refreshCount = (case set_refreshCount upd of Some v \<Rightarrow> v | None \<Rightarrow> refreshCount cur)\<rparr>"

text \<open>
  What the status file holds: JSON that parses to a status record, or bytes on which
  \<^verbatim>\<open>JSON.parse\<close> throws. A file that is absent is \<open>None\<close> in the host below.
\<close>

datatype status_file = Parsed DaemonStatus | Unparsable

text \<open>
  The machine both processes run on: its clock and the three files, the pid file and
  the log file with the text they hold. The process table is the predicate \<open>alive\<close>:
  \<open>alive w p\<close> holds when the operating system accepts a signal for \<open>p\<close> from this
  user.
\<close>

record host =
  clock :: instant
  statusFile :: "status_file option"
  pidFile :: "js_string option"
  logFile :: "js_string option"

record os = host +
  alive :: "int \<Rightarrow> bool"

datatype signal = Sig0 | SIGTERM | SIGKILL

text \<open>
  \<^verbatim>\<open>process.kill(pid, signal)\<close> throws when the process does not exist. Signal 0
  only probes; \<^verbatim>\<open>SIGKILL\<close> ends the process; what \<^verbatim>\<open>SIGTERM\<close> leads to is up to
  the receiver and shows in the grace period of \<^verbatim>\<open>stopDaemon\<close>.
\<close>

definition process_kill :: "int \<Rightarrow> signal \<Rightarrow> 'a os_scheme \<Rightarrow> error + 'a os_scheme" where
  "process_kill p sig w =
     (if \<not> alive w p then Inl ESRCH
      else case sig of
             SIGKILL \<Rightarrow> Inr (w\<lparr>alive := (alive w)(p := False)\<rparr>)
           | _ \<Rightarrow> Inr w)"

text \<open>\<^verbatim>\<open>isProcessRunning\<close> (the controller and the server have the same method).\<close>

definition isProcessRunning :: "'a os_scheme \<Rightarrow> int \<Rightarrow> bool" where
  "isProcessRunning w p =
     (case process_kill p Sig0 w of Inl _ \<Rightarrow> False | Inr _ \<Rightarrow> True)"

subsection \<open>token-refresh-server.ts\<close>

text \<open>
  \<^verbatim>\<open>checkDaemonHealth\<close> answers with one of eight texts; the model keeps which one.
  The two \<^verbatim>\<open>Unknown\<close> and the two \<^verbatim>\<open>Error\<close> headings are told apart. The test
  \<^verbatim>\<open>timeSinceRefresh > refreshIntervalMs * 1.5\<close> is written without the fraction, as
  \<open>2 * timeSinceRefresh > 3 * refreshIntervalMs\<close>.
\<close>

datatype health =
    Unknown_no_status_file
  | Warning
  | Healthy
  | Error_reported
  | Stopped
  | Dead_process
  | Unknown_status
  | Error_check_failed

definition checkDaemonHealth :: "'a os_scheme \<Rightarrow> health" where
  "checkDaemonHealth w =
     (case statusFile w of
        None \<Rightarrow> Unknown_no_status_file
      | Some Unparsable \<Rightarrow> Error_check_failed
      | Some (Parsed st) \<Rightarrow>
          let running = isProcessRunning w (pid st) in
          if status st = ''running'' \<and> running then
            let now = clock w;
                last = (case lastRefresh st of Some t \<Rightarrow> t | None \<Rightarrow> 0);
                timeSinceRefresh = now - last;
                refreshIntervalMs = 30 * 60 * 1000
            in if 2 * timeSinceRefresh > 3 * refreshIntervalMs then Warning else Healthy
          else if status st = ''error'' then Error_reported
          else if status st = ''stopped'' then Stopped
          else if \<not> running then Dead_process
          else Unknown_status)"

subsection \<open>daemon-controller.ts\<close>

text \<open>
  The controller object lives in the caller's process. \<open>daemonProcess\<close> is the
  \<^verbatim>\<open>ChildProcess\<close> handle (\<^verbatim>\<open>null\<close> is \<open>None\<close>); a handle has no pid when the spawn
  failed. \<open>exitHandlers\<close> lists the children on which an \<^verbatim>\<open>exit\<close> listener is
  registered and whose exit event has not been delivered yet. \<open>statusWrites\<close> is not
  in the source: it counts the calls of \<^verbatim>\<open>writeFileSync\<close> on the status file that
  this process has made, so that a write shows even when it leaves the content as it
  was.
\<close>

record ChildProcess =
  child_pid :: "int option"

record controller = os +
  daemonProcess :: "ChildProcess option"
  exitHandlers :: "int list"
  statusWrites :: nat

definition getStatus :: "'a host_scheme \<Rightarrow> DaemonStatus option" where
  "getStatus w =
     (case statusFile w of
        None \<Rightarrow> None
      | Some Unparsable \<Rightarrow> None
      | Some (Parsed st) \<Rightarrow> Some st)"

definition isHealthy :: "'a os_scheme \<Rightarrow> bool" where
  "isHealthy w =
     (case getStatus w of
        None \<Rightarrow> False
      | Some st \<Rightarrow> if status st \<noteq> ''running'' then False else isProcessRunning w (pid st))"

definition getLogs :: "int \<Rightarrow> 'a host_scheme \<Rightarrow> js_string" where
  "getLogs tailLines w =
     (case logFile w of
        None \<Rightarrow> utf16 ''No logs available''
      | Some logContent \<Rightarrow>
          let lines = split_nl logContent
          in join_nl (filter nonblank (slice_from (- tailLines) lines)))"

text \<open>
  The controller's \<^verbatim>\<open>updateStatus\<close>: read, overlay, write. A file that is absent or
  does not parse is replaced by a placeholder first.
\<close>

definition controller_updateStatus :: "StatusUpdates \<Rightarrow> controller \<Rightarrow> controller" where
  "controller_updateStatus updates w =
     (let currentStatus =
            (case getStatus w of
               Some st \<Rightarrow> st
             | None \<Rightarrow> \<lparr>pid = 0, startTime = clock w, status = ''stopped'',
                         lastRefresh = None, nextRefresh = None, refreshCount = 0\<rparr>)
      in w\<lparr>statusFile := Some (Parsed (overlay currentStatus updates)),
           statusWrites := Suc (statusWrites w)\<rparr>)"

text \<open>
  The listener \<^verbatim>\<open>daemonProcess.on("exit", ...)\<close>. The runtime calls it once, in a
  later turn of the caller's event loop, after the child has ended.
\<close>

definition on_exit :: "controller \<Rightarrow> controller" where
  "on_exit w = controller_updateStatus (no_updates\<lparr>set_status := Some ''stopped''\<rparr>) w"

definition deliver_exit :: "int \<Rightarrow> controller \<Rightarrow> controller" where
  "deliver_exit p w =
     (if p \<in> set (exitHandlers w) \<and> \<not> alive w p
      then on_exit (w\<lparr>exitHandlers := remove1 p (exitHandlers w)\<rparr>)
      else w)"

definition deliver_pending :: "controller \<Rightarrow> controller" where
  "deliver_pending w = fold deliver_exit (exitHandlers w) w"

text \<open>
  What the outside world decides during one call of \<^verbatim>\<open>stopDaemon\<close>: whether the
  target process ends by itself between the liveness probe and \<^verbatim>\<open>SIGTERM\<close>, whether
  it ends within the two seconds that follow, and whether it ends between the second
  probe and \<^verbatim>\<open>SIGKILL\<close>. A process that has ended is gone from the process table.
  This is so at once for a process that is not the caller's child, which is the case
  when the pid comes from the pid file and the controller object holds no handle; a
  child of the caller can still be signalled until the runtime has reaped it, so for
  a child the first and the third answer are always no. The model does not restrict
  the answers, and a theorem about every answer holds for the ones that can occur.
\<close>

record stop_env =
  gone_before_term :: bool
  gone_in_grace :: bool
  gone_before_kill :: bool

definition process_ends :: "bool \<Rightarrow> int \<Rightarrow> 'a os_scheme \<Rightarrow> 'a os_scheme" where
  "process_ends gone p w = (if gone then w\<lparr>alive := (alive w)(p := False)\<rparr> else w)"

text \<open>
  \<^verbatim>\<open>await new Promise((resolve) => setTimeout(resolve, 2000))\<close>: two seconds pass,
  during which the signalled process ends or does not, and the caller's event loop
  delivers the exit events that are due. A daemon that exits on \<^verbatim>\<open>SIGTERM\<close> writes
  status \<^verbatim>\<open>stopped\<close> itself in this window; that write of the other process is left
  out here, since \<^verbatim>\<open>stopDaemon\<close> unlinks the file next.
\<close>

definition grace_period :: "bool \<Rightarrow> int \<Rightarrow> controller \<Rightarrow> controller" where
  "grace_period gone p w = deliver_pending (process_ends gone p (w\<lparr>clock := clock w + 2000\<rparr>))"

text \<open>The \<^verbatim>\<open>forEach\<close> that unlinks the pid file and the status file when they exist.\<close>

definition cleanup_files :: "controller \<Rightarrow> controller" where
  "cleanup_files w = w\<lparr>pidFile := None, statusFile := None\<rparr>"

text \<open>
  The variable \<^verbatim>\<open>pid\<close> of \<^verbatim>\<open>stopDaemon\<close> before the test: \<^verbatim>\<open>null\<close> (\<open>None\<close>), what
  \<^verbatim>\<open>parseInt\<close> made of the trimmed pid file, or the pid of the handle when that is
  truthy.
\<close>

definition target_pid :: "controller \<Rightarrow> js_number option" where
  "target_pid w =
     (let fromFile = (case pidFile w of
                        None \<Rightarrow> None
                      | Some pidStr \<Rightarrow> Some (parseInt (js_trim pidStr)))
      in case daemonProcess w of
           None \<Rightarrow> fromFile
         | Some child \<Rightarrow>
             (case child_pid child of
                None \<Rightarrow> fromFile
              | Some p \<Rightarrow> if p = 0 then fromFile else Some (Exact p)))"

text \<open>
  \<^verbatim>\<open>stopDaemon\<close>. \<open>stop_try\<close> is the body of the \<^verbatim>\<open>try\<close>: it returns the state it
  reached, or the error and the state at the throw. \<^verbatim>\<open>pid && ...\<close> is false for
  \<^verbatim>\<open>null\<close>, \<^verbatim>\<open>NaN\<close> and 0; a number beyond \<open>2\<^sup>5\<^sup>3\<close> is truthy and is no process id,
  so the probe answers false for it. \<^verbatim>\<open>process.kill\<close> throws when the process has
  ended since the probe; nothing after the throw runs, the clean-up included.
\<close>

definition stop_try :: "stop_env \<Rightarrow> controller \<Rightarrow> (error \<times> controller) + controller" where
  "stop_try env w =
     (let finish = (\<lambda>v. Inr ((cleanup_files v)\<lparr>daemonProcess := None\<rparr>))
      in case target_pid w of
           Some (Exact p) \<Rightarrow>
             if p \<noteq> 0 \<and> isProcessRunning w p then
               (let w0 = process_ends (gone_before_term env) p w in
                case process_kill p SIGTERM w0 of
                  Inl e \<Rightarrow> Inl (e, w0)
                | Inr w1 \<Rightarrow>
                    let w2 = grace_period (gone_in_grace env) p w1 in
                    if isProcessRunning w2 p then
                      (let w3 = process_ends (gone_before_kill env) p w2 in
                       case process_kill p SIGKILL w3 of
                         Inl e \<Rightarrow> Inl (e, w3)
                       | Inr w4 \<Rightarrow> finish w4)
                    else finish w2)
             else finish w
         | _ \<Rightarrow> finish w)"

text \<open>
  The \<^verbatim>\<open>catch\<close> of \<^verbatim>\<open>stopDaemon\<close> logs a warning and returns: the error is dropped
  and the caller gets the state at the throw.
\<close>

definition stopDaemon :: "stop_env \<Rightarrow> controller \<Rightarrow> (error \<times> controller) + controller" where
  "stopDaemon env w =
     (case stop_try env w of
        Inl (e, w') \<Rightarrow> Inr w'
      | Inr w' \<Rightarrow> Inr w')"

text \<open>
  \<^verbatim>\<open>startDaemon\<close>. \<open>spawned\<close> is the pid the operating system gave the child, if it
  created one. The \<^verbatim>\<open>catch\<close> block logs and rethrows.
\<close>

definition startDaemon ::
  "stop_env \<Rightarrow> int option \<Rightarrow> controller \<Rightarrow> (error \<times> controller) + (DaemonStatus \<times> controller)" where
  "startDaemon env spawned w =
     (case stopDaemon env w of
        Inl (e, w') \<Rightarrow> Inl (e, w')
      | Inr w1 \<Rightarrow>
          (let w2 = w1\<lparr>daemonProcess := Some \<lparr>child_pid = spawned\<rparr>\<rparr>
           in case spawned of
                None \<Rightarrow> Inl (SpawnFailed, w2)
              | Some p \<Rightarrow>
                  if p = 0 then Inl (SpawnFailed, w2)
                  else
                    let w3 = w2\<lparr>alive := (alive w2)(p := True)\<rparr>;
                        w4 = w3\<lparr>pidFile := Some (toString p)\<rparr>;
                        w5 = w4\<lparr>exitHandlers := exitHandlers w4 @ [p]\<rparr>;
                        initialStatus = \<lparr>pid = p, startTime = clock w5, status = ''running'',
                                         lastRefresh = None, nextRefresh = None, refreshCount = 0\<rparr>;
                        w6 = controller_updateStatus
                               \<lparr>set_pid = Some p, set_startTime = Some (clock w5),
                                set_status = Some ''running'', set_lastRefresh = None,
                                set_nextRefresh = None, set_refreshCount = Some 0\<rparr> w5
                    in Inr (initialStatus, w6)))"

text \<open>
  The three queries as calls: each returns its answer and the state it leaves. They
  are built from \<^verbatim>\<open>existsSync\<close>, \<^verbatim>\<open>readFileSync\<close> and the probe
  \<^verbatim>\<open>process.kill(pid, 0)\<close>.
\<close>

definition existsSync :: "('a \<Rightarrow> 'f option) \<Rightarrow> 'a \<Rightarrow> bool \<times> 'a" where
  "existsSync file w = (file w \<noteq> None, w)"

definition readFileSync :: "('a \<Rightarrow> 'f option) \<Rightarrow> 'a \<Rightarrow> 'f option \<times> 'a" where
  "readFileSync file w = (file w, w)"

definition getStatus_call :: "controller \<Rightarrow> DaemonStatus option \<times> controller" where
  "getStatus_call w =
     (let (found, w1) = existsSync statusFile w
      in if \<not> found then (None, w1)
         else let (statusData, w2) = readFileSync statusFile w1
              in case statusData of
                   Some (Parsed st) \<Rightarrow> (Some st, w2)
                 | _ \<Rightarrow> (None, w2))"

definition isProcessRunning_call :: "int \<Rightarrow> controller \<Rightarrow> bool \<times> controller" where
  "isProcessRunning_call p w =
     (case process_kill p Sig0 w of Inl _ \<Rightarrow> (False, w) | Inr w' \<Rightarrow> (True, w'))"

definition isHealthy_call :: "controller \<Rightarrow> bool \<times> controller" where
  "isHealthy_call w =
     (let (st, w1) = getStatus_call w
      in case st of
           None \<Rightarrow> (False, w1)
         | Some st \<Rightarrow>
             if status st \<noteq> ''running'' then (False, w1)
             else isProcessRunning_call (pid st) w1)"

definition getLogs_call :: "int \<Rightarrow> controller \<Rightarrow> js_string \<times> controller" where
  "getLogs_call tailLines w =
     (let (found, w1) = existsSync logFile w
      in if \<not> found then (utf16 ''No logs available'', w1)
         else let (logContent, w2) = readFileSync logFile w1;
                  lines = split_nl (case logContent of Some c \<Rightarrow> c | None \<Rightarrow> [])
              in (join_nl (filter nonblank (slice_from (- tailLines) lines)), w2))"

text \<open>
  What the controller can do to the machine: its public methods, and the delivery of
  an exit event to a listener it registered.
\<close>

datatype controller_op =
    StartDaemon stop_env "int option"
  | StopDaemon stop_env
  | GetStatus
  | IsHealthy
  | GetLogs int
  | ExitEvent int

definition controller_step :: "controller_op \<Rightarrow> controller \<Rightarrow> controller" where
  "controller_step op w =
     (case op of
        StartDaemon env spawned \<Rightarrow>
          (case startDaemon env spawned w of Inl (e, w') \<Rightarrow> w' | Inr (st, w') \<Rightarrow> w')
      | StopDaemon env \<Rightarrow>
          (case stopDaemon env w of Inl (e, w') \<Rightarrow> w' | Inr w' \<Rightarrow> w')
      | GetStatus \<Rightarrow> snd (getStatus_call w)
      | IsHealthy \<Rightarrow> snd (isHealthy_call w)
      | GetLogs n \<Rightarrow> snd (getLogs_call n w)
      | ExitEvent p \<Rightarrow> deliver_exit p w)"

subsection \<open>token-refresh-daemon.ts\<close>

text \<open>
  The daemon process: the fields of the \<^verbatim>\<open>TokenRefreshDaemon\<close> object, and of the
  runtime the timers pending in its event loop, the next timer handle, and the exit
  code once \<^verbatim>\<open>process.exit\<close> was called. \<open>ticks\<close> is a ghost counter of the entries
  into \<^verbatim>\<open>refreshTokenAndAuth\<close>. The runtime's clamping of out-of-range timer delays
  is not modelled: a timer is due \<open>delay\<close> milliseconds after it was set.
\<close>

record DaemonConfig =
  refreshIntervalMinutes :: int
  maxRuntimeHours :: int

datatype callback = RefreshTick | MaxRuntime

record timer =
  tid :: nat
  due :: instant
  callback :: callback

record daemon = host +
  config :: DaemonConfig
  tokenManager :: TokenManager
  refreshTimer :: "nat option"
  maxRuntimeTimer :: "nat option"
  this_refreshCount :: int
  process_pid :: int
  timers :: "timer list"
  nextTid :: nat
  exitCode :: "int option"
  ticks :: nat

text \<open>The constructor, given the parsed \<^verbatim>\<open>DAEMON_CONFIG\<close>, the pid and the machine.\<close>

definition TokenRefreshDaemon_new :: "DaemonConfig \<Rightarrow> int \<Rightarrow> host \<Rightarrow> daemon" where
  "TokenRefreshDaemon_new cfg p h =
     \<lparr>clock = clock h, statusFile = statusFile h, pidFile = pidFile h, logFile = logFile h,
      config = cfg, tokenManager = TokenManager_new, refreshTimer = None,
      maxRuntimeTimer = None, this_refreshCount = 0, process_pid = p, timers = [],
      nextTid = 0, exitCode = None, ticks = 0\<rparr>"

definition setTimeout :: "callback \<Rightarrow> int \<Rightarrow> daemon \<Rightarrow> nat \<times> daemon" where
  "setTimeout cb delay w =
     (nextTid w,
      w\<lparr>timers := timers w @ [\<lparr>tid = nextTid w, due = clock w + delay, callback = cb\<rparr>],
        nextTid := Suc (nextTid w)\<rparr>)"

definition clearTimeout :: "nat \<Rightarrow> daemon \<Rightarrow> daemon" where
  "clearTimeout i w = w\<lparr>timers := filter (\<lambda>t. tid t \<noteq> i) (timers w)\<rparr>"

definition process_exit :: "int \<Rightarrow> daemon \<Rightarrow> daemon" where
  "process_exit code w = w\<lparr>exitCode := Some code\<rparr>"

text \<open>
  The daemon's \<^verbatim>\<open>updateStatus\<close>. When the file exists and does not parse, the
  \<^verbatim>\<open>catch\<close> block logs the failure and nothing is written.
\<close>

definition daemon_updateStatus :: "StatusUpdates \<Rightarrow> daemon \<Rightarrow> daemon" where
  "daemon_updateStatus updates w =
     (case statusFile w of
        Some Unparsable \<Rightarrow> w
      | Some (Parsed currentStatus) \<Rightarrow>
          w\<lparr>statusFile := Some (Parsed (overlay currentStatus updates))\<rparr>
      | None \<Rightarrow>
          w\<lparr>statusFile := Some (Parsed (overlay
               \<lparr>pid = process_pid w, startTime = clock w, status = ''running'',
                lastRefresh = None, nextRefresh = None, refreshCount = 0\<rparr> updates))\<rparr>)"

text \<open>
  What one tick meets outside the process: the answer of the handshake, whether each of
  the three commands exits with 0, and the milliseconds spent waiting for the handshake
  and for the commands.
\<close>

record tick_env =
  auth :: auth_outcome
  git_ok :: bool
  gh_login_ok :: bool
  gh_setup_ok :: bool
  mint_ms :: nat
  propagate_ms :: nat

definition updateGitAuth :: "tick_env \<Rightarrow> string \<Rightarrow> error + unit" where
  "updateGitAuth e tok = (if git_ok e then Inr () else Inl GitConfigFailed)"

definition updateGhAuth :: "tick_env \<Rightarrow> string \<Rightarrow> error + unit" where
  "updateGhAuth e tok =
     (if \<not> gh_login_ok e then Inl GhLoginFailed
      else if \<not> gh_setup_ok e then Inl GhSetupGitFailed
      else Inr ())"

definition error_status :: StatusUpdates where
  "error_status = no_updates\<lparr>set_status := Some ''error''\<rparr>"

definition refreshTokenAndAuth :: "tick_env \<Rightarrow> daemon \<Rightarrow> (error + unit) \<times> daemon" where
  "refreshTokenAndAuth e w =
     (let w0 = w\<lparr>ticks := Suc (ticks w)\<rparr>;
          w1 = w0\<lparr>clock := clock w0 + int (mint_ms e)\<rparr>;
          (r, tm) = getToken (clock w1) (auth e) (tokenManager w1);
          w2 = w1\<lparr>tokenManager := tm\<rparr>
      in case r of
           Inl err \<Rightarrow> (Inl err, daemon_updateStatus error_status w2)
         | Inr tokenInfo \<Rightarrow>
             let w3 = w2\<lparr>clock := clock w2 + int (propagate_ms e)\<rparr> in
             (case updateGitAuth e (token tokenInfo) of
                Inl err \<Rightarrow> (Inl err, daemon_updateStatus error_status w3)
              | Inr _ \<Rightarrow>
                  (case updateGhAuth e (token tokenInfo) of
                     Inl err \<Rightarrow> (Inl err, daemon_updateStatus error_status w3)
                   | Inr _ \<Rightarrow>
                       let w4 = w3\<lparr>this_refreshCount := this_refreshCount w3 + 1\<rparr>;
                           next = clock w4 + refreshIntervalMinutes (config w4) * 60 * 1000
                       in (Inr (),
                           daemon_updateStatus
                             (no_updates\<lparr>set_lastRefresh := Some (clock w4),
                                set_nextRefresh := Some next,
                                set_refreshCount := Some (this_refreshCount w4)\<rparr>) w4))))"

definition scheduleNextRefresh :: "daemon \<Rightarrow> daemon" where
  "scheduleNextRefresh w =
     (let w1 = (case refreshTimer w of Some i \<Rightarrow> clearTimeout i w | None \<Rightarrow> w);
          intervalMs = refreshIntervalMinutes (config w1) * 60 * 1000;
          (i, w2) = setTimeout RefreshTick intervalMs w1
      in w2\<lparr>refreshTimer := Some i\<rparr>)"

text \<open>
  The function \<^verbatim>\<open>scheduleNextRefresh\<close> hands to \<^verbatim>\<open>setTimeout\<close>: both the
  \<^verbatim>\<open>try\<close> and the \<^verbatim>\<open>catch\<close> branch end in \<^verbatim>\<open>scheduleNextRefresh\<close>.
\<close>

definition scheduledRefresh :: "tick_env \<Rightarrow> daemon \<Rightarrow> daemon" where
  "scheduledRefresh e w =
     (case refreshTokenAndAuth e w of
        (Inr _, w') \<Rightarrow> scheduleNextRefresh w'
      | (Inl err, w') \<Rightarrow> scheduleNextRefresh w')"

definition shutdown :: "daemon \<Rightarrow> daemon" where
  "shutdown w =
     (let w1 = (case refreshTimer w of Some i \<Rightarrow> clearTimeout i w | None \<Rightarrow> w);
          w2 = (case maxRuntimeTimer w1 of Some i \<Rightarrow> clearTimeout i w1 | None \<Rightarrow> w1);
          w3 = daemon_updateStatus (no_updates\<lparr>set_status := Some ''stopped''\<rparr>) w2
      in process_exit 0 w3)"

text \<open>
  \<^verbatim>\<open>start\<close>. A failure of the first refresh is caught by \<^verbatim>\<open>start\<close>, which writes
  status \<^verbatim>\<open>error\<close> and exits with code 1. The keep-alive interval has an empty body
  and no counterpart here.
\<close>

definition start :: "tick_env \<Rightarrow> daemon \<Rightarrow> daemon" where
  "start e w =
     (let w1 = daemon_updateStatus
                 \<lparr>set_pid = Some (process_pid w), set_startTime = Some (clock w),
                  set_status = Some ''running'', set_lastRefresh = None,
                  set_nextRefresh = None, set_refreshCount = Some 0\<rparr> w
      in case refreshTokenAndAuth e w1 of
           (Inl err, w2) \<Rightarrow> process_exit 1 (daemon_updateStatus error_status w2)
         | (Inr _, w2) \<Rightarrow>
             let w3 = scheduleNextRefresh w2;
                 maxRuntimeMs = maxRuntimeHours (config w3) * 60 * 60 * 1000;
                 (i, w4) = setTimeout MaxRuntime maxRuntimeMs w3
             in w4\<lparr>maxRuntimeTimer := Some i\<rparr>)"

subsection \<open>Outcomes of a tick\<close>

text \<open>
  Which answers of the outside world make a tick fail: the minting fails when the
  handshake is rejected or its answer has no usable token; the propagation fails when
  one of the three commands exits with a code other than 0 (\<^verbatim>\<open>git config\<close> in
  \<^verbatim>\<open>updateGitAuth\<close>, \<^verbatim>\<open>gh auth login\<close> and \<^verbatim>\<open>gh auth setup-git\<close> in
  \<^verbatim>\<open>updateGhAuth\<close>). \<open>tick_duration\<close> is the time the tick spends waiting: a tick whose
  minting fails never starts a command.
\<close>

definition mint_fails :: "tick_env \<Rightarrow> bool" where
  "mint_fails e = (case auth e of Rejected \<Rightarrow> True | Resolved r \<Rightarrow> no_usable_token r)"

definition propagation_fails :: "tick_env \<Rightarrow> bool" where
  "propagation_fails e = (\<not> git_ok e \<or> \<not> gh_login_ok e \<or> \<not> gh_setup_ok e)"

definition tick_duration :: "tick_env \<Rightarrow> int" where
  "tick_duration e =
     int (mint_ms e) + (if mint_fails e then 0 else int (propagate_ms e))"

subsection \<open>The event loop\<close>

text \<open>
  The event loop of the daemon process. One turn takes the pending timer that is due
  first (the older one when two are due at the same instant), moves the clock there and
  runs its callback. A refresh callback waits for the handshake and the commands; when
  the maximum-runtime timer falls due before they have answered, its callback runs
  first and the process exits with the tick unfinished (what the tick had changed in
  the memory of the process by then is lost with the process and is not modelled).
  \<open>envs k\<close> is what the tick numbered \<open>k\<close> meets; the initial tick is number 0.
  The handlers of \<^verbatim>\<open>SIGTERM\<close> and \<^verbatim>\<open>SIGINT\<close> call \<open>shutdown\<close> as the
  maximum-runtime timer does; signals are not among the events of this loop.
\<close>

fun earliest :: "timer list \<Rightarrow> timer option" where
  "earliest [] = None"
| "earliest (t # ts) =
     (case earliest ts of
        None \<Rightarrow> Some t
      | Some u \<Rightarrow>
          if due t < due u \<or> (due t = due u \<and> tid t < tid u) then Some t else Some u)"

definition fire :: "timer \<Rightarrow> daemon \<Rightarrow> daemon" where
  "fire t w = w\<lparr>clock := max (clock w) (due t),
                 timers := filter (\<lambda>u. tid u \<noteq> tid t) (timers w)\<rparr>"

definition loop_turn :: "(nat \<Rightarrow> tick_env) \<Rightarrow> daemon \<Rightarrow> daemon" where
  "loop_turn envs w =
     (if exitCode w \<noteq> None then w
      else case earliest (timers w) of
             None \<Rightarrow> w
           | Some t \<Rightarrow>
               let w1 = fire t w in
               (case callback t of
                  MaxRuntime \<Rightarrow> shutdown w1
                | RefreshTick \<Rightarrow>
                    let e = envs (ticks w1);
                        answered = clock w1 + tick_duration e
                    in (case earliest (filter (\<lambda>u. callback u = MaxRuntime \<and> due u < answered)
                                         (timers w1)) of
                          Some m \<Rightarrow> shutdown (fire m (w1\<lparr>ticks := Suc (ticks w1)\<rparr>))
                        | None \<Rightarrow> scheduledRefresh e w1)))"

fun run :: "nat \<Rightarrow> (nat \<Rightarrow> tick_env) \<Rightarrow> daemon \<Rightarrow> daemon" where
  "run 0 envs w = w"
| "run (Suc n) envs w = run n envs (loop_turn envs w)"

subsection \<open>The daemon between two ticks\<close>

text \<open>
  The shape of the daemon process while it waits, for the configuration of 30 minutes
  and 6 hours: \<open>k\<close> scheduled ticks have run to their end, the clock reads \<open>c\<close>, and
  two timers are pending, the maximum-runtime timer set at instant \<open>T\<close> and the refresh
  timer set at \<open>c\<close>.
\<close>

definition waiting :: "instant \<Rightarrow> nat \<Rightarrow> instant \<Rightarrow> daemon \<Rightarrow> bool" where
  "waiting T k c w =
     (exitCode w = None \<and> clock w = c \<and> ticks w = Suc k
      \<and> config w = \<lparr>refreshIntervalMinutes = 30, maxRuntimeHours = 6\<rparr>
      \<and> maxRuntimeTimer w = Some 1 \<and> 1 < nextTid w
      \<and> (case refreshTimer w of
            None \<Rightarrow> False
          | Some r \<Rightarrow>
              r \<noteq> 1 \<and> (0 < k \<longrightarrow> 1 < r)
              \<and> (timers w =
                    [\<lparr>tid = r, due = c + 1800000, callback = RefreshTick\<rparr>,
                     \<lparr>tid = 1, due = T + 21600000, callback = MaxRuntime\<rparr>]
                  \<or> timers w =
                    [\<lparr>tid = 1, due = T + 21600000, callback = MaxRuntime\<rparr>,
                     \<lparr>tid = r, due = c + 1800000, callback = RefreshTick\<rparr>]))
      \<and> (case statusFile w of
            Some (Parsed st) \<Rightarrow> status st = ''running''
          | _ \<Rightarrow> False))"

text \<open>The daemon after its graceful exit at instant \<open>c\<close>, \<open>n\<close> ticks having begun.\<close>

definition stopped_at :: "instant \<Rightarrow> nat \<Rightarrow> daemon \<Rightarrow> bool" where
  "stopped_at c n w =
     (exitCode w = Some 0 \<and> clock w = c \<and> ticks w = n \<and> timers w = []
      \<and> (case statusFile w of
            Some (Parsed st) \<Rightarrow> status st = ''stopped''
          | _ \<Rightarrow> False))"

section \<open>Properties of the token manager\<close>

text \<open>
  Claim C9. When the handshake answers with a usable token but without an expiry,
  \<^verbatim>\<open>getToken\<close> does not fail: the credential it returns (and caches) expires one hour
  after the current instant, and its installation id is 0 when the answer has none.
\<close>

theorem C9_getToken_default_expiry:
  assumes "auth_token r = Some t" and "t \<noteq> []" and "auth_expiresAt r = None"
  shows "\<exists>info. getToken now (Resolved r) tm = (Inr info, tm\<lparr>currentToken := Some info\<rparr>)
           \<and> token info = t
           \<and> expiresAt info = now + 3600000
           \<and> (auth_installationId r = None \<longrightarrow> installationId info = 0)
           \<and> (\<forall>i. auth_installationId r = Some i \<longrightarrow> installationId info = i)"
  using assms by (simp add: getToken_def no_usable_token_def Let_def split: option.splits)

theorem C9_getToken_default_expiry_witness:
  "getToken 1000 (Resolved \<lparr>auth_token = Some ''ghs_abc'', auth_expiresAt = None,
        auth_installationId = None\<rparr>) TokenManager_new
     = (Inr \<lparr>token = ''ghs_abc'', expiresAt = 3601000, installationId = 0\<rparr>,
        \<lparr>currentToken = Some \<lparr>token = ''ghs_abc'', expiresAt = 3601000, installationId = 0\<rparr>\<rparr>)"
  using C9_getToken_default_expiry
    [of "\<lparr>auth_token = Some ''ghs_abc'', auth_expiresAt = None, auth_installationId = None\<rparr>"
        "''ghs_abc''" 1000 TokenManager_new]
  by (auto simp: TokenManager_new_def)

text \<open>
  Claim C10. A failing \<^verbatim>\<open>getToken\<close> (the handshake is rejected, or its answer has no
  usable token) leaves the cached credential as it was; the cache is assigned only on
  the path that returns a credential, and then it holds exactly that credential.
\<close>

theorem C10_getToken_failure_keeps_cache:
  "(getToken now outcome tm = (Inl e, tm') \<longrightarrow> tm' = tm)
   \<and> (getToken now outcome tm = (Inr info, tm') \<longrightarrow> currentToken tm' = Some info)
   \<and> ((\<exists>e. fst (getToken now outcome tm) = Inl e)
        \<longleftrightarrow> (outcome = Rejected \<or> (\<exists>r. outcome = Resolved r \<and> no_usable_token r)))"
  by (cases outcome) (auto simp: getToken_def Let_def)

theorem C10_getToken_failure_keeps_cache_witness:
  "getToken 5000 Rejected
       \<lparr>currentToken = Some \<lparr>token = ''old'', expiresAt = 9000, installationId = 7\<rparr>\<rparr>
     = (Inl AuthRejected,
        \<lparr>currentToken = Some \<lparr>token = ''old'', expiresAt = 9000, installationId = 7\<rparr>\<rparr>)
   \<and> getToken 5000 (Resolved \<lparr>auth_token = Some [], auth_expiresAt = Some 8000,
          auth_installationId = Some 7\<rparr>)
       \<lparr>currentToken = Some \<lparr>token = ''old'', expiresAt = 9000, installationId = 7\<rparr>\<rparr>
     = (Inl NoInstallationToken,
        \<lparr>currentToken = Some \<lparr>token = ''old'', expiresAt = 9000, installationId = 7\<rparr>\<rparr>)"
  using C10_getToken_failure_keeps_cache
    [of 5000 Rejected
        "\<lparr>currentToken = Some \<lparr>token = ''old'', expiresAt = 9000, installationId = 7\<rparr>\<rparr>"
        AuthRejected
        "\<lparr>currentToken = Some \<lparr>token = ''old'', expiresAt = 9000, installationId = 7\<rparr>\<rparr>"]
  by (simp add: getToken_def no_usable_token_def)



section \<open>Properties of the controller's queries\<close>

lemma isProcessRunning_alive: "isProcessRunning w p = alive w p"
  by (simp add: isProcessRunning_def process_kill_def split: signal.splits)

text \<open>
  Claim C3. \<^verbatim>\<open>isHealthy()\<close> is true exactly when the status file exists and
  parses, its status is \<^verbatim>\<open>running\<close>, and the operating system accepts the probe of
  the recorded pid. Whatever status is recorded, it is false when the recorded pid is
  not alive, and it is false when the file is absent or does not parse.
\<close>

theorem C3_isHealthy:
  "(isHealthy w \<longleftrightarrow>
      (\<exists>st. statusFile w = Some (Parsed st) \<and> status st = ''running'' \<and> alive w (pid st)))
   \<and> (\<forall>st. statusFile w = Some (Parsed st) \<and> \<not> alive w (pid st) \<longrightarrow> \<not> isHealthy w)
   \<and> (statusFile w = None \<or> statusFile w = Some Unparsable \<longrightarrow> \<not> isHealthy w)"
  by (auto simp: isHealthy_def getStatus_def isProcessRunning_alive
           split: option.splits status_file.splits)

theorem C3_isHealthy_witness:
  "isHealthy \<lparr>clock = 0,
       statusFile = Some (Parsed \<lparr>pid = 4242, startTime = 0, status = ''running'',
         lastRefresh = None, nextRefresh = None, refreshCount = 0\<rparr>),
       pidFile = None, logFile = None, alive = (\<lambda>p. p = 4242)\<rparr>
   \<and> \<not> isHealthy \<lparr>clock = 0,
       statusFile = Some (Parsed \<lparr>pid = 4242, startTime = 0, status = ''running'',
         lastRefresh = None, nextRefresh = None, refreshCount = 0\<rparr>),
       pidFile = None, logFile = None, alive = (\<lambda>p. False)\<rparr>
   \<and> \<not> isHealthy \<lparr>clock = 0, statusFile = Some Unparsable,
       pidFile = None, logFile = None, alive = (\<lambda>p. True)\<rparr>"
  using C3_isHealthy [of "\<lparr>clock = 0,
       statusFile = Some (Parsed \<lparr>pid = 4242, startTime = 0, status = ''running'',
         lastRefresh = None, nextRefresh = None, refreshCount = 0\<rparr>),
       pidFile = None, logFile = None, alive = (\<lambda>p. p = 4242)\<rparr>"]
    C3_isHealthy [of "\<lparr>clock = 0,
       statusFile = Some (Parsed \<lparr>pid = 4242, startTime = 0, status = ''running'',
         lastRefresh = None, nextRefresh = None, refreshCount = 0\<rparr>),
       pidFile = None, logFile = None, alive = (\<lambda>p. False)\<rparr>"]
    C3_isHealthy [of "\<lparr>clock = 0, statusFile = Some Unparsable,
       pidFile = None, logFile = None, alive = (\<lambda>p. True)\<rparr>"]
  by simp


















section \<open>Properties of the monitoring server\<close>

text \<open>
  Claim C5, as the code has it. For a status record that says \<^verbatim>\<open>running\<close> and whose pid
  is alive, the health query answers \<^verbatim>\<open>Warning\<close> exactly when more than 45 minutes
  have passed since \<^verbatim>\<open>lastRefresh\<close>, and \<^verbatim>\<open>Healthy\<close> otherwise. The 45 minutes are
  1.5 times a constant of 30 minutes written in the server; the server does not read
  the daemon's configuration. A record without \<^verbatim>\<open>lastRefresh\<close> counts from the epoch.
\<close>

theorem C5_checkDaemonHealth_fixed_threshold:
  assumes "statusFile w = Some (Parsed st)" and "status st = ''running''"
    and "alive w (pid st)"
  shows "checkDaemonHealth w =
           (if clock w - (case lastRefresh st of Some t \<Rightarrow> t | None \<Rightarrow> 0) > 45 * 60 * 1000
            then Warning else Healthy)"
  using assms
  by (simp add: checkDaemonHealth_def isProcessRunning_alive Let_def split: option.splits)

theorem C5_checkDaemonHealth_fixed_threshold_witness:
  "checkDaemonHealth \<lparr>clock = 2700001,
       statusFile = Some (Parsed \<lparr>pid = 4242, startTime = 0, status = ''running'',
         lastRefresh = Some 0, nextRefresh = Some 1800000, refreshCount = 1\<rparr>),
       pidFile = None, logFile = None, alive = (\<lambda>p. p = 4242)\<rparr> = Warning
   \<and> checkDaemonHealth \<lparr>clock = 2700000,
       statusFile = Some (Parsed \<lparr>pid = 4242, startTime = 0, status = ''running'',
         lastRefresh = Some 0, nextRefresh = Some 1800000, refreshCount = 1\<rparr>),
       pidFile = None, logFile = None, alive = (\<lambda>p. p = 4242)\<rparr> = Healthy"
  using C5_checkDaemonHealth_fixed_threshold [of "\<lparr>clock = 2700001,
       statusFile = Some (Parsed \<lparr>pid = 4242, startTime = 0, status = ''running'',
         lastRefresh = Some 0, nextRefresh = Some 1800000, refreshCount = 1\<rparr>),
       pidFile = None, logFile = None, alive = (\<lambda>p. p = 4242)\<rparr>"
       "\<lparr>pid = 4242, startTime = 0, status = ''running'',
         lastRefresh = Some 0, nextRefresh = Some 1800000, refreshCount = 1\<rparr>"]
    C5_checkDaemonHealth_fixed_threshold [of "\<lparr>clock = 2700000,
       statusFile = Some (Parsed \<lparr>pid = 4242, startTime = 0, status = ''running'',
         lastRefresh = Some 0, nextRefresh = Some 1800000, refreshCount = 1\<rparr>),
       pidFile = None, logFile = None, alive = (\<lambda>p. p = 4242)\<rparr>"
       "\<lparr>pid = 4242, startTime = 0, status = ''running'',
         lastRefresh = Some 0, nextRefresh = Some 1800000, refreshCount = 1\<rparr>"]
  by simp

text \<open>
  The claim as stated, with the configured interval, fails: a daemon configured for 60
  minutes writes its first record at instant 0; 50 minutes later, with 1.5 times the
  configured interval being 90 minutes, the server answers \<^verbatim>\<open>Warning\<close>.
\<close>

theorem C5_counterexample:
  "checkDaemonHealth
     \<lparr>clock = 50 * 60 * 1000,
      statusFile =
        statusFile
          (start \<lparr>auth = Resolved \<lparr>auth_token = Some ''ghs_1'', auth_expiresAt = None,
                   auth_installationId = Some 9\<rparr>,
                 git_ok = True, gh_login_ok = True, gh_setup_ok = True,
                 mint_ms = 0, propagate_ms = 0\<rparr>
              (TokenRefreshDaemon_new \<lparr>refreshIntervalMinutes = 60, maxRuntimeHours = 6\<rparr> 4242
                 \<lparr>clock = 0, statusFile = None, pidFile = None, logFile = None\<rparr>)),
      pidFile = None, logFile = None, alive = (\<lambda>p. p = 4242)\<rparr> = Warning
   \<and> \<not> (2 * (50 * 60 * 1000 - 0)
          > 3 * (refreshIntervalMinutes \<lparr>refreshIntervalMinutes = 60, maxRuntimeHours = 6\<rparr>
                 * 60 * 1000))"
  by (simp add: checkDaemonHealth_def isProcessRunning_alive
     start_def TokenRefreshDaemon_new_def refreshTokenAndAuth_def getToken_def
     no_usable_token_def daemon_updateStatus_def overlay_def no_updates_def updateGitAuth_def
     updateGhAuth_def scheduleNextRefresh_def setTimeout_def TokenManager_new_def Let_def)


section \<open>Properties of the daemon\<close>

lemma daemon_updateStatus_fields [simp]:
  "clock (daemon_updateStatus u w) = clock w"
  "pidFile (daemon_updateStatus u w) = pidFile w"
  "logFile (daemon_updateStatus u w) = logFile w"
  "config (daemon_updateStatus u w) = config w"
  "tokenManager (daemon_updateStatus u w) = tokenManager w"
  "refreshTimer (daemon_updateStatus u w) = refreshTimer w"
  "maxRuntimeTimer (daemon_updateStatus u w) = maxRuntimeTimer w"
  "this_refreshCount (daemon_updateStatus u w) = this_refreshCount w"
  "process_pid (daemon_updateStatus u w) = process_pid w"
  "timers (daemon_updateStatus u w) = timers w"
  "nextTid (daemon_updateStatus u w) = nextTid w"
  "exitCode (daemon_updateStatus u w) = exitCode w"
  "ticks (daemon_updateStatus u w) = ticks w"
  by (simp_all add: daemon_updateStatus_def split: option.splits status_file.splits)

lemma refresh_result:
  "fst (refreshTokenAndAuth e w) = Inr () \<longleftrightarrow> \<not> mint_fails e \<and> \<not> propagation_fails e"
  by (cases "auth e";
      simp add: refreshTokenAndAuth_def mint_fails_def propagation_fails_def getToken_def Let_def
        updateGitAuth_def updateGhAuth_def; blast?)

lemma refresh_frame:
  "config (snd (refreshTokenAndAuth e w)) = config w"
  "refreshTimer (snd (refreshTokenAndAuth e w)) = refreshTimer w"
  "maxRuntimeTimer (snd (refreshTokenAndAuth e w)) = maxRuntimeTimer w"
  "process_pid (snd (refreshTokenAndAuth e w)) = process_pid w"
  "timers (snd (refreshTokenAndAuth e w)) = timers w"
  "nextTid (snd (refreshTokenAndAuth e w)) = nextTid w"
  "exitCode (snd (refreshTokenAndAuth e w)) = exitCode w"
  "ticks (snd (refreshTokenAndAuth e w)) = Suc (ticks w)"
  "pidFile (snd (refreshTokenAndAuth e w)) = pidFile w"
  "logFile (snd (refreshTokenAndAuth e w)) = logFile w"
  by (auto simp: refreshTokenAndAuth_def Let_def split: prod.splits sum.splits)

lemma refresh_clock:
  "clock (snd (refreshTokenAndAuth e w)) = clock w + tick_duration e"
  by (cases "auth e";
      simp add: refreshTokenAndAuth_def tick_duration_def mint_fails_def getToken_def Let_def
        split: prod.splits sum.splits)

lemma refresh_failure:
  assumes "mint_fails e \<or> propagation_fails e"
  shows "this_refreshCount (snd (refreshTokenAndAuth e w)) = this_refreshCount w"
    and "statusFile (snd (refreshTokenAndAuth e w)) =
           statusFile (daemon_updateStatus error_status (w\<lparr>clock := clock w + tick_duration e\<rparr>))"
proof -
  show "this_refreshCount (snd (refreshTokenAndAuth e w)) = this_refreshCount w"
    using assms
    by (cases "auth e";
        simp add: refreshTokenAndAuth_def mint_fails_def propagation_fails_def getToken_def
          Let_def updateGitAuth_def updateGhAuth_def; blast?)
  show "statusFile (snd (refreshTokenAndAuth e w)) =
           statusFile (daemon_updateStatus error_status (w\<lparr>clock := clock w + tick_duration e\<rparr>))"
    using assms
    by (cases "auth e";
        simp add: refreshTokenAndAuth_def mint_fails_def propagation_fails_def tick_duration_def
          getToken_def Let_def updateGitAuth_def updateGhAuth_def daemon_updateStatus_def add.assoc
          split: option.splits status_file.splits; blast?)
qed

lemma scheduledRefresh_eq:
  "scheduledRefresh e w = scheduleNextRefresh (snd (refreshTokenAndAuth e w))"
  by (simp add: scheduledRefresh_def split: prod.splits sum.splits)

lemma scheduleNextRefresh_fields:
  "clock (scheduleNextRefresh w) = clock w"
  "statusFile (scheduleNextRefresh w) = statusFile w"
  "this_refreshCount (scheduleNextRefresh w) = this_refreshCount w"
  "exitCode (scheduleNextRefresh w) = exitCode w"
  "ticks (scheduleNextRefresh w) = ticks w"
  "config (scheduleNextRefresh w) = config w"
  "tokenManager (scheduleNextRefresh w) = tokenManager w"
  "maxRuntimeTimer (scheduleNextRefresh w) = maxRuntimeTimer w"
  "process_pid (scheduleNextRefresh w) = process_pid w"
  "nextTid (scheduleNextRefresh w) = Suc (nextTid w)"
  "refreshTimer (scheduleNextRefresh w) = Some (nextTid w)"
  "timers (scheduleNextRefresh w) =
     filter (\<lambda>t. Some (tid t) \<noteq> refreshTimer w) (timers w)
     @ [\<lparr>tid = nextTid w, due = clock w + refreshIntervalMinutes (config w) * 60 * 1000,
          callback = RefreshTick\<rparr>]"
  by (auto simp: scheduleNextRefresh_def setTimeout_def clearTimeout_def Let_def
      split: option.splits intro: filter_cong)


lemma error_status_overlay:
  "overlay st error_status = st\<lparr>status := ''error''\<rparr>"
  by (simp add: overlay_def error_status_def no_updates_def)

text \<open>
  Claim C1, as the code has it. A scheduled tick in which the minting or a propagation
  step fails leaves \<^verbatim>\<open>refreshCount\<close> as it was, does not exit the process, and sets
  exactly one new timer, due one refresh interval after the failure; the handle
  \<^verbatim>\<open>refreshTimer\<close> points to it, and it is the only refresh timer pending when before
  the tick no refresh timer other than the one \<^verbatim>\<open>refreshTimer\<close> names was pending.
  The status write goes through \<^verbatim>\<open>updateStatus\<close>: a status file that is absent or
  parses ends with status \<^verbatim>\<open>error\<close> and its other fields kept; a status file that
  does not parse stays as it is, since \<^verbatim>\<open>updateStatus\<close> swallows its own failure.
\<close>

theorem C1_failed_tick:
  assumes "mint_fails e \<or> propagation_fails e"
  shows "this_refreshCount (scheduledRefresh e w) = this_refreshCount w
    \<and> exitCode (scheduledRefresh e w) = exitCode w
    \<and> clock (scheduledRefresh e w) = clock w + tick_duration e
    \<and> statusFile (scheduledRefresh e w) =
        (case statusFile w of
           None \<Rightarrow> Some (Parsed \<lparr>pid = process_pid w, startTime = clock w + tick_duration e,
                     status = ''error'', lastRefresh = None, nextRefresh = None,
                     refreshCount = 0\<rparr>)
         | Some (Parsed st) \<Rightarrow> Some (Parsed (st\<lparr>status := ''error''\<rparr>))
         | Some Unparsable \<Rightarrow> Some Unparsable)
    \<and> refreshTimer (scheduledRefresh e w) = Some (nextTid w)
    \<and> timers (scheduledRefresh e w) =
        filter (\<lambda>t. Some (tid t) \<noteq> refreshTimer w) (timers w)
        @ [\<lparr>tid = nextTid w,
             due = clock w + tick_duration e + refreshIntervalMinutes (config w) * 60 * 1000,
             callback = RefreshTick\<rparr>]
    \<and> ((\<forall>t \<in> set (timers w). callback t = RefreshTick \<longrightarrow> refreshTimer w = Some (tid t))
         \<longrightarrow> filter (\<lambda>t. callback t = RefreshTick) (timers (scheduledRefresh e w)) =
              [\<lparr>tid = nextTid w,
                due = clock w + tick_duration e + refreshIntervalMinutes (config w) * 60 * 1000,
                callback = RefreshTick\<rparr>])"
proof -
  let ?v = "snd (refreshTokenAndAuth e w)"
  have sf: "statusFile ?v =
        (case statusFile w of
           None \<Rightarrow> Some (Parsed \<lparr>pid = process_pid w, startTime = clock w + tick_duration e,
                     status = ''error'', lastRefresh = None, nextRefresh = None,
                     refreshCount = 0\<rparr>)
         | Some (Parsed st) \<Rightarrow> Some (Parsed (st\<lparr>status := ''error''\<rparr>))
         | Some Unparsable \<Rightarrow> Some Unparsable)"
    unfolding refresh_failure(2) [OF assms]
    by (simp add: daemon_updateStatus_def error_status_overlay overlay_def error_status_def
          no_updates_def split: option.splits status_file.splits)
  have tm: "timers (scheduledRefresh e w) =
        filter (\<lambda>t. Some (tid t) \<noteq> refreshTimer w) (timers w)
        @ [\<lparr>tid = nextTid w,
             due = clock w + tick_duration e + refreshIntervalMinutes (config w) * 60 * 1000,
             callback = RefreshTick\<rparr>]"
    by (simp add: scheduledRefresh_eq scheduleNextRefresh_fields refresh_frame refresh_clock)
  have one: "filter (\<lambda>t. callback t = RefreshTick) (timers (scheduledRefresh e w)) =
              [\<lparr>tid = nextTid w,
                due = clock w + tick_duration e + refreshIntervalMinutes (config w) * 60 * 1000,
                callback = RefreshTick\<rparr>]"
    if inv: "\<forall>t \<in> set (timers w). callback t = RefreshTick \<longrightarrow> refreshTimer w = Some (tid t)"
  proof -
    have "filter (\<lambda>t. callback t = RefreshTick)
            (filter (\<lambda>t. Some (tid t) \<noteq> refreshTimer w) (timers w)) = []"
      using inv by (auto simp: filter_empty_conv)
    then show ?thesis unfolding tm by simp
  qed
  show ?thesis
    using sf tm one
    by (simp add: scheduledRefresh_eq scheduleNextRefresh_fields refresh_frame refresh_clock
          refresh_failure(1) [OF assms])
qed

theorem C1_failed_tick_witness:
  "this_refreshCount
     (scheduledRefresh
        \<lparr>auth = Resolved \<lparr>auth_token = Some ''ghs_2'', auth_expiresAt = None,
                  auth_installationId = Some 9\<rparr>,
         git_ok = True, gh_login_ok = False, gh_setup_ok = True,
         mint_ms = 200, propagate_ms = 300\<rparr>
        (fire \<lparr>tid = 0, due = 1800000, callback = RefreshTick\<rparr>
           (start \<lparr>auth = Resolved \<lparr>auth_token = Some ''ghs_1'', auth_expiresAt = None,
                     auth_installationId = Some 9\<rparr>,
                   git_ok = True, gh_login_ok = True, gh_setup_ok = True,
                   mint_ms = 0, propagate_ms = 0\<rparr>
              (TokenRefreshDaemon_new \<lparr>refreshIntervalMinutes = 30, maxRuntimeHours = 6\<rparr> 77
                 \<lparr>clock = 0, statusFile = None, pidFile = None, logFile = None\<rparr>)))) = 1
   \<and> statusFile
     (scheduledRefresh
        \<lparr>auth = Resolved \<lparr>auth_token = Some ''ghs_2'', auth_expiresAt = None,
                  auth_installationId = Some 9\<rparr>,
         git_ok = True, gh_login_ok = False, gh_setup_ok = True,
         mint_ms = 200, propagate_ms = 300\<rparr>
        (fire \<lparr>tid = 0, due = 1800000, callback = RefreshTick\<rparr>
           (start \<lparr>auth = Resolved \<lparr>auth_token = Some ''ghs_1'', auth_expiresAt = None,
                     auth_installationId = Some 9\<rparr>,
                   git_ok = True, gh_login_ok = True, gh_setup_ok = True,
                   mint_ms = 0, propagate_ms = 0\<rparr>
              (TokenRefreshDaemon_new \<lparr>refreshIntervalMinutes = 30, maxRuntimeHours = 6\<rparr> 77
                 \<lparr>clock = 0, statusFile = None, pidFile = None, logFile = None\<rparr>))))
     = Some (Parsed \<lparr>pid = 77, startTime = 0, status = ''error'', lastRefresh = Some 0,
               nextRefresh = Some 1800000, refreshCount = 1\<rparr>)
   \<and> timers
     (scheduledRefresh
        \<lparr>auth = Resolved \<lparr>auth_token = Some ''ghs_2'', auth_expiresAt = None,
                  auth_installationId = Some 9\<rparr>,
         git_ok = True, gh_login_ok = False, gh_setup_ok = True,
         mint_ms = 200, propagate_ms = 300\<rparr>
        (fire \<lparr>tid = 0, due = 1800000, callback = RefreshTick\<rparr>
           (start \<lparr>auth = Resolved \<lparr>auth_token = Some ''ghs_1'', auth_expiresAt = None,
                     auth_installationId = Some 9\<rparr>,
                   git_ok = True, gh_login_ok = True, gh_setup_ok = True,
                   mint_ms = 0, propagate_ms = 0\<rparr>
              (TokenRefreshDaemon_new \<lparr>refreshIntervalMinutes = 30, maxRuntimeHours = 6\<rparr> 77
                 \<lparr>clock = 0, statusFile = None, pidFile = None, logFile = None\<rparr>))))
     = [\<lparr>tid = 1, due = 21600000, callback = MaxRuntime\<rparr>,
        \<lparr>tid = 2, due = 3600500, callback = RefreshTick\<rparr>]"
proof -
  let ?e = "\<lparr>auth = Resolved \<lparr>auth_token = Some ''ghs_2'', auth_expiresAt = None,
                  auth_installationId = Some 9\<rparr>,
         git_ok = True, gh_login_ok = False, gh_setup_ok = True,
         mint_ms = 200, propagate_ms = 300\<rparr>"
  let ?w = "fire \<lparr>tid = 0, due = 1800000, callback = RefreshTick\<rparr>
           (start \<lparr>auth = Resolved \<lparr>auth_token = Some ''ghs_1'', auth_expiresAt = None,
                     auth_installationId = Some 9\<rparr>,
                   git_ok = True, gh_login_ok = True, gh_setup_ok = True,
                   mint_ms = 0, propagate_ms = 0\<rparr>
              (TokenRefreshDaemon_new \<lparr>refreshIntervalMinutes = 30, maxRuntimeHours = 6\<rparr> 77
                 \<lparr>clock = 0, statusFile = None, pidFile = None, logFile = None\<rparr>))"
  have h: "mint_fails ?e \<or> propagation_fails ?e"
    by (simp add: propagation_fails_def)
  have d: "tick_duration ?e = 500"
    by (simp add: tick_duration_def mint_fails_def no_usable_token_def)
  have w: "this_refreshCount ?w = 1
     \<and> statusFile ?w = Some (Parsed \<lparr>pid = 77, startTime = 0, status = ''running'',
           lastRefresh = Some 0, nextRefresh = Some 1800000, refreshCount = 1\<rparr>)
     \<and> timers ?w = [\<lparr>tid = 1, due = 21600000, callback = MaxRuntime\<rparr>]
     \<and> refreshTimer ?w = Some 0 \<and> nextTid ?w = 2 \<and> clock ?w = 1800000
     \<and> refreshIntervalMinutes (config ?w) = 30"
    by code_simp
  show ?thesis
    using C1_failed_tick [OF h, of ?w] by (simp add: w d)
qed

text \<open>
  The claim as stated fails where the status file does not parse: a daemon started on
  such a file runs its first tick, and its first scheduled tick, in which the handshake
  is rejected, leaves the file as it was, with no status \<^verbatim>\<open>error\<close> in it.
\<close>

theorem C1_counterexample:
  "statusFile
     (run 1 (\<lambda>k. \<lparr>auth = Rejected, git_ok = True, gh_login_ok = True, gh_setup_ok = True,
                  mint_ms = 200, propagate_ms = 0\<rparr>)
        (start \<lparr>auth = Resolved \<lparr>auth_token = Some ''ghs_1'', auth_expiresAt = None,
                  auth_installationId = Some 9\<rparr>,
                git_ok = True, gh_login_ok = True, gh_setup_ok = True,
                mint_ms = 0, propagate_ms = 0\<rparr>
           (TokenRefreshDaemon_new \<lparr>refreshIntervalMinutes = 30, maxRuntimeHours = 6\<rparr> 77
              \<lparr>clock = 0, statusFile = Some Unparsable, pidFile = None, logFile = None\<rparr>)))
     = Some Unparsable
   \<and> ticks
     (run 1 (\<lambda>k. \<lparr>auth = Rejected, git_ok = True, gh_login_ok = True, gh_setup_ok = True,
                  mint_ms = 200, propagate_ms = 0\<rparr>)
        (start \<lparr>auth = Resolved \<lparr>auth_token = Some ''ghs_1'', auth_expiresAt = None,
                  auth_installationId = Some 9\<rparr>,
                git_ok = True, gh_login_ok = True, gh_setup_ok = True,
                mint_ms = 0, propagate_ms = 0\<rparr>
           (TokenRefreshDaemon_new \<lparr>refreshIntervalMinutes = 30, maxRuntimeHours = 6\<rparr> 77
              \<lparr>clock = 0, statusFile = Some Unparsable, pidFile = None, logFile = None\<rparr>)))
     = 2"
  by code_simp


lemma refresh_success:
  assumes "\<not> mint_fails e" and "\<not> propagation_fails e" and "auth e = Resolved r"
  shows "snd (refreshTokenAndAuth e w) =
     daemon_updateStatus
       (no_updates\<lparr>set_lastRefresh := Some (clock w + tick_duration e),
          set_nextRefresh := Some (clock w + tick_duration e
                                   + refreshIntervalMinutes (config w) * 60 * 1000),
          set_refreshCount := Some (this_refreshCount w + 1)\<rparr>)
       (w\<lparr>ticks := Suc (ticks w),
          tokenManager := snd (getToken (clock w + int (mint_ms e)) (auth e) (tokenManager w)),
          clock := clock w + tick_duration e,
          this_refreshCount := this_refreshCount w + 1\<rparr>)"
  using assms
  by (simp add: refreshTokenAndAuth_def mint_fails_def propagation_fails_def tick_duration_def
        getToken_def Let_def updateGitAuth_def updateGhAuth_def add.assoc
      split: option.splits)

text \<open>
  Claim C6, as the code has it. After a successful tick the recorded \<^verbatim>\<open>nextRefresh\<close> is
  the instant the tick ended plus the configured interval, whatever the credential's
  expiry; nothing in the tick compares the two. So \<^verbatim>\<open>nextRefresh\<close> lies before
  \<^verbatim>\<open>expiresAt\<close> minus a margin exactly when the time the commands took, the interval
  and the margin together are shorter than the credential's lifetime counted from the
  instant it was minted; with the default expiry that lifetime is one hour. The margin
  of the token manager is \<open>fiveMinutes\<close>.
\<close>

theorem C6_nextRefresh_against_expiry:
  assumes "\<not> mint_fails e" and "\<not> propagation_fails e"
    and "statusFile w \<noteq> Some Unparsable"
  shows "\<exists>st tok r n. auth e = Resolved r
      \<and> statusFile (snd (refreshTokenAndAuth e w)) = Some (Parsed st)
      \<and> currentToken (tokenManager (snd (refreshTokenAndAuth e w))) = Some tok
      \<and> nextRefresh st = Some n
      \<and> n = clock w + int (mint_ms e) + int (propagate_ms e)
              + refreshIntervalMinutes (config w) * 60 * 1000
      \<and> expiresAt tok =
          (case auth_expiresAt r of
             Some x \<Rightarrow> x
           | None \<Rightarrow> clock w + int (mint_ms e) + 60 * 60 * 1000)
      \<and> (n < expiresAt tok - margin \<longleftrightarrow>
           int (propagate_ms e) + refreshIntervalMinutes (config w) * 60 * 1000 + margin
             < expiresAt tok - (clock w + int (mint_ms e)))
      \<and> (auth_expiresAt r = None \<longrightarrow>
           (n < expiresAt tok - margin \<longleftrightarrow>
             int (propagate_ms e) + refreshIntervalMinutes (config w) * 60 * 1000 + margin
               < 60 * 60 * 1000))"
proof -
  obtain r where r: "auth e = Resolved r" "\<not> no_usable_token r"
    using assms(1) by (cases "auth e") (auto simp: mint_fails_def)
  have d: "tick_duration e = int (mint_ms e) + int (propagate_ms e)"
    using assms(1) by (simp add: tick_duration_def)
  show ?thesis
    using assms(3) r
    unfolding refresh_success [OF assms(1,2) r(1)] d
    by (cases "statusFile w")
       (auto simp: daemon_updateStatus_def overlay_def no_updates_def getToken_def Let_def
          split: status_file.splits option.splits)
qed


theorem C6_nextRefresh_against_expiry_witness:
  "statusFile (snd (refreshTokenAndAuth
       \<lparr>auth = Resolved \<lparr>auth_token = Some ''ghs_1'', auth_expiresAt = None,
                 auth_installationId = Some 9\<rparr>,
        git_ok = True, gh_login_ok = True, gh_setup_ok = True,
        mint_ms = 200, propagate_ms = 300\<rparr>
       (TokenRefreshDaemon_new \<lparr>refreshIntervalMinutes = 30, maxRuntimeHours = 6\<rparr> 77
          \<lparr>clock = 0, statusFile = None, pidFile = None, logFile = None\<rparr>)))
     = Some (Parsed \<lparr>pid = 77, startTime = 500, status = ''running'',
          lastRefresh = Some 500, nextRefresh = Some 1800500, refreshCount = 1\<rparr>)
   \<and> currentToken (tokenManager (snd (refreshTokenAndAuth
       \<lparr>auth = Resolved \<lparr>auth_token = Some ''ghs_1'', auth_expiresAt = None,
                 auth_installationId = Some 9\<rparr>,
        git_ok = True, gh_login_ok = True, gh_setup_ok = True,
        mint_ms = 200, propagate_ms = 300\<rparr>
       (TokenRefreshDaemon_new \<lparr>refreshIntervalMinutes = 30, maxRuntimeHours = 6\<rparr> 77
          \<lparr>clock = 0, statusFile = None, pidFile = None, logFile = None\<rparr>))))
     = Some \<lparr>token = ''ghs_1'', expiresAt = 3600200, installationId = 9\<rparr>
   \<and> (1800500::int) < 3600200 - fiveMinutes"
proof -
  let ?e = "\<lparr>auth = Resolved \<lparr>auth_token = Some ''ghs_1'', auth_expiresAt = None,
                 auth_installationId = Some 9\<rparr>,
        git_ok = True, gh_login_ok = True, gh_setup_ok = True,
        mint_ms = 200, propagate_ms = 300\<rparr>"
  let ?w = "TokenRefreshDaemon_new \<lparr>refreshIntervalMinutes = 30, maxRuntimeHours = 6\<rparr> 77
          \<lparr>clock = 0, statusFile = None, pidFile = None, logFile = None\<rparr>"
  have h1: "\<not> mint_fails ?e" by (simp add: mint_fails_def no_usable_token_def)
  have h2: "\<not> propagation_fails ?e" by (simp add: propagation_fails_def)
  have h3: "statusFile ?w \<noteq> Some Unparsable" by (simp add: TokenRefreshDaemon_new_def)
  have ev: "statusFile (snd (refreshTokenAndAuth ?e ?w))
       = Some (Parsed \<lparr>pid = 77, startTime = 500, status = ''running'',
            lastRefresh = Some 500, nextRefresh = Some 1800500, refreshCount = 1\<rparr>)
     \<and> currentToken (tokenManager (snd (refreshTokenAndAuth ?e ?w)))
       = Some \<lparr>token = ''ghs_1'', expiresAt = 3600200, installationId = 9\<rparr>"
    by code_simp
  show ?thesis
    using C6_nextRefresh_against_expiry [OF h1 h2 h3, of fiveMinutes] ev
    by (auto simp: TokenRefreshDaemon_new_def fiveMinutes_def)
qed

text \<open>
  The claim as stated fails: with an interval of 60 minutes and a handshake that names
  no expiry, the first tick records a \<^verbatim>\<open>nextRefresh\<close> that is the very instant the
  credential expires, which is not before the expiry less the five-minute margin.
\<close>

theorem C6_counterexample:
  "statusFile (snd (refreshTokenAndAuth
       \<lparr>auth = Resolved \<lparr>auth_token = Some ''ghs_1'', auth_expiresAt = None,
                 auth_installationId = Some 9\<rparr>,
        git_ok = True, gh_login_ok = True, gh_setup_ok = True,
        mint_ms = 0, propagate_ms = 0\<rparr>
       (TokenRefreshDaemon_new \<lparr>refreshIntervalMinutes = 60, maxRuntimeHours = 6\<rparr> 77
          \<lparr>clock = 0, statusFile = None, pidFile = None, logFile = None\<rparr>)))
     = Some (Parsed \<lparr>pid = 77, startTime = 0, status = ''running'',
          lastRefresh = Some 0, nextRefresh = Some 3600000, refreshCount = 1\<rparr>)
   \<and> currentToken (tokenManager (snd (refreshTokenAndAuth
       \<lparr>auth = Resolved \<lparr>auth_token = Some ''ghs_1'', auth_expiresAt = None,
                 auth_installationId = Some 9\<rparr>,
        git_ok = True, gh_login_ok = True, gh_setup_ok = True,
        mint_ms = 0, propagate_ms = 0\<rparr>
       (TokenRefreshDaemon_new \<lparr>refreshIntervalMinutes = 60, maxRuntimeHours = 6\<rparr> 77
          \<lparr>clock = 0, statusFile = None, pidFile = None, logFile = None\<rparr>))))
     = Some \<lparr>token = ''ghs_1'', expiresAt = 3600000, installationId = 9\<rparr>
   \<and> \<not> ((3600000::int) < 3600000 - fiveMinutes)"
  by code_simp
section \<open>Properties of the controller's life-cycle operations\<close>

lemma process_kill_alive:
  "alive w p \<Longrightarrow> process_kill p SIGTERM w = Inr w"
  "alive w p \<Longrightarrow> process_kill p SIGKILL w = Inr (w\<lparr>alive := (alive w)(p := False)\<rparr>)"
  by (simp_all add: process_kill_def)

lemma process_kill_dead: "\<not> alive w p \<Longrightarrow> process_kill p sig w = Inl ESRCH"
  by (simp add: process_kill_def)

lemma process_ends_simps:
  "process_ends False p w = w"
  "process_ends True p w = w\<lparr>alive := (alive w)(p := False)\<rparr>"
  by (simp_all add: process_ends_def)

lemma deliver_exit_frame:
  "pidFile (deliver_exit p w) = pidFile w"
  "daemonProcess (deliver_exit p w) = daemonProcess w"
  "alive (deliver_exit p w) = alive w"
  "statusFile (deliver_exit p w) = None \<Longrightarrow> statusFile w = None"
  by (simp_all add: deliver_exit_def on_exit_def controller_updateStatus_def Let_def
        split: if_splits)

lemma fold_deliver_exit_frame:
  "pidFile (fold deliver_exit ps w) = pidFile w"
  "daemonProcess (fold deliver_exit ps w) = daemonProcess w"
  "alive (fold deliver_exit ps w) = alive w"
  by (induction ps arbitrary: w) (simp_all add: deliver_exit_frame)

lemma fold_deliver_exit_statusFile:
  "statusFile (fold deliver_exit ps w) = None \<Longrightarrow> statusFile w = None"
  by (induction ps arbitrary: w) (auto dest: deliver_exit_frame(4))

lemma grace_period_frame:
  "pidFile (grace_period g p w) = pidFile w"
  "daemonProcess (grace_period g p w) = daemonProcess w"
  "alive (grace_period False p w) = alive w"
  "alive (grace_period True p w) = (alive w)(p := False)"
  by (cases g; simp add: grace_period_def deliver_pending_def fold_deliver_exit_frame
        process_ends_simps)+

lemma grace_period_statusFile:
  "statusFile (grace_period g p w) = None \<Longrightarrow> statusFile w = None"
  by (cases g) (auto simp: grace_period_def deliver_pending_def process_ends_simps
        dest!: fold_deliver_exit_statusFile)

lemma stop_try_no_target:
  "target_pid w = None \<or> target_pid w = Some NaN \<or> target_pid w = Some Inexact
     \<or> target_pid w = Some (Exact 0) \<or> (\<exists>p. target_pid w = Some (Exact p) \<and> \<not> alive w p) \<Longrightarrow>
   stop_try env w = Inr ((cleanup_files w)\<lparr>daemonProcess := None\<rparr>)"
  by (auto simp: stop_try_def isProcessRunning_alive)

lemma stop_try_target:
  assumes "target_pid w = Some (Exact p)" "p \<noteq> 0" "alive w p"
  shows "gone_before_term env \<Longrightarrow>
           stop_try env w = Inl (ESRCH, w\<lparr>alive := (alive w)(p := False)\<rparr>)"
    and "\<not> gone_before_term env \<Longrightarrow> gone_in_grace env \<Longrightarrow>
           stop_try env w = Inr ((cleanup_files (grace_period True p w))\<lparr>daemonProcess := None\<rparr>)"
    and "\<not> gone_before_term env \<Longrightarrow> \<not> gone_in_grace env \<Longrightarrow> gone_before_kill env \<Longrightarrow>
           stop_try env w = Inl (ESRCH, (grace_period False p w)\<lparr>alive := (alive w)(p := False)\<rparr>)"
    and "\<not> gone_before_term env \<Longrightarrow> \<not> gone_in_grace env \<Longrightarrow> \<not> gone_before_kill env \<Longrightarrow>
           stop_try env w = Inr ((cleanup_files ((grace_period False p w)\<lparr>alive := (alive w)(p := False)\<rparr>))
                                   \<lparr>daemonProcess := None\<rparr>)"
  using assms
  by (simp_all add: stop_try_def isProcessRunning_alive process_ends_simps
        process_kill_alive process_kill_dead grace_period_frame Let_def)


lemma stop_try_cases:
  "(\<exists>v. stop_try env w = Inr ((cleanup_files v)\<lparr>daemonProcess := None\<rparr>))
   \<or> (\<exists>v. stop_try env w = Inl (ESRCH, v)
          \<and> (gone_before_term env \<or> gone_before_kill env)
          \<and> pidFile v = pidFile w \<and> daemonProcess v = daemonProcess w
          \<and> (statusFile v = None \<longrightarrow> statusFile w = None)
          \<and> (\<exists>p. target_pid w = Some (Exact p) \<and> \<not> alive v p))"
proof (cases "\<exists>p. target_pid w = Some (Exact p) \<and> p \<noteq> 0 \<and> alive w p")
  case False
  have "target_pid w = None \<or> target_pid w = Some NaN \<or> target_pid w = Some Inexact
     \<or> target_pid w = Some (Exact 0) \<or> (\<exists>p. target_pid w = Some (Exact p) \<and> \<not> alive w p)"
  proof (cases "target_pid w")
    case None then show ?thesis by simp
  next
    case (Some t)
    with False show ?thesis by (cases t) auto
  qed
  then have "stop_try env w = Inr ((cleanup_files w)\<lparr>daemonProcess := None\<rparr>)"
    by (rule stop_try_no_target)
  then show ?thesis by blast
next
  case True
  then obtain p where p: "target_pid w = Some (Exact p)" "p \<noteq> 0" "alive w p" by blast
  note eqs = stop_try_target [OF p, of env]
  consider (a) "gone_before_term env"
    | (b) "\<not> gone_before_term env" "gone_in_grace env"
    | (c) "\<not> gone_before_term env" "\<not> gone_in_grace env" "gone_before_kill env"
    | (d) "\<not> gone_before_term env" "\<not> gone_in_grace env" "\<not> gone_before_kill env"
    by blast
  then show ?thesis
  proof cases
    case a
    then have "stop_try env w = Inl (ESRCH, w\<lparr>alive := (alive w)(p := False)\<rparr>)"
      by (rule eqs(1))
    with a p show ?thesis by simp
  next
    case b
    then have "stop_try env w
        = Inr ((cleanup_files (grace_period True p w))\<lparr>daemonProcess := None\<rparr>)"
      by (rule eqs(2))
    then show ?thesis by blast
  next
    case c
    let ?v = "(grace_period False p w)\<lparr>alive := (alive w)(p := False)\<rparr>"
    have "stop_try env w = Inl (ESRCH, ?v)" using c by (rule eqs(3))
    moreover have "pidFile ?v = pidFile w" "daemonProcess ?v = daemonProcess w"
      by (simp_all add: grace_period_frame)
    moreover have "statusFile ?v = None \<longrightarrow> statusFile w = None"
      using grace_period_statusFile [of False p w] by simp
    moreover have "\<not> alive ?v p" by simp
    ultimately show ?thesis using c p by simp
  next
    case d
    then have "stop_try env w
        = Inr ((cleanup_files ((grace_period False p w)\<lparr>alive := (alive w)(p := False)\<rparr>))
                 \<lparr>daemonProcess := None\<rparr>)"
      by (rule eqs(4))
    then show ?thesis by blast
  qed
qed










text \<open>
  Remark. The theorem speaks of the state in which \<^verbatim>\<open>stopDaemon\<close> returns.
  \<^verbatim>\<open>stopDaemon\<close> leaves the \<^verbatim>\<open>exit\<close> listener of its child registered. When the
  child had to be killed after the grace period, its exit event is delivered in a later
  turn of the caller's event loop, after \<^verbatim>\<open>stopDaemon\<close> has returned (here, after two
  calls in a row), and the listener then writes a placeholder record: the status file
  exists again.
\<close>

lemma exit_event_after_forced_stop:
  "(case stopDaemon \<lparr>gone_before_term = False, gone_in_grace = False, gone_before_kill = False\<rparr>
       \<lparr>clock = 1000,
        statusFile = Some (Parsed \<lparr>pid = 100, startTime = 0, status = ''running'',
          lastRefresh = Some 0, nextRefresh = Some 1800000, refreshCount = 1\<rparr>),
        pidFile = Some (utf16 ''100''), logFile = None, alive = (\<lambda>p. p = 100),
        daemonProcess = Some \<lparr>child_pid = Some 100\<rparr>, exitHandlers = [100],
        statusWrites = 1\<rparr> of
      Inl failure \<Rightarrow> None
    | Inr w1 \<Rightarrow>
        (case stopDaemon
                \<lparr>gone_before_term = False, gone_in_grace = False, gone_before_kill = False\<rparr> w1 of
           Inl failure \<Rightarrow> None
         | Inr w2 \<Rightarrow> Some (statusFile w1, statusFile w2, statusFile (deliver_exit 100 w2))))
   = Some (None, None, Some (Parsed \<lparr>pid = 0, startTime = 3000, status = ''stopped'',
          lastRefresh = None, nextRefresh = None, refreshCount = 0\<rparr>))"
  by code_simp

lemma controller_updateStatus_statusFile:
  "statusFile (controller_updateStatus u w) =
     Some (Parsed (overlay
       (case getStatus w of
          Some st \<Rightarrow> st
        | None \<Rightarrow> \<lparr>pid = 0, startTime = clock w, status = ''stopped'',
                    lastRefresh = None, nextRefresh = None, refreshCount = 0\<rparr>) u))"
  "statusWrites (controller_updateStatus u w) = Suc (statusWrites w)"
  by (simp_all add: controller_updateStatus_def Let_def)

lemma deliver_exit_statusFile:
  "statusFile (deliver_exit p w) =
     (if p \<in> set (exitHandlers w) \<and> \<not> alive w p
      then Some (Parsed
        (case getStatus w of
           Some st \<Rightarrow> st\<lparr>status := ''stopped''\<rparr>
         | None \<Rightarrow> \<lparr>pid = 0, startTime = clock w, status = ''stopped'',
                     lastRefresh = None, nextRefresh = None, refreshCount = 0\<rparr>))
      else statusFile w)"
  by (simp add: deliver_exit_def on_exit_def controller_updateStatus_statusFile getStatus_def
        overlay_def no_updates_def split: option.splits status_file.splits)

lemma deliver_exit_statusWrites:
  "statusWrites (deliver_exit p w) =
     (if p \<in> set (exitHandlers w) \<and> \<not> alive w p
      then Suc (statusWrites w) else statusWrites w)"
  by (simp add: deliver_exit_def on_exit_def controller_updateStatus_statusFile)

lemma getStatus_call: "getStatus_call w = (getStatus w, w)"
  by (simp add: getStatus_call_def getStatus_def existsSync_def readFileSync_def
        split: option.splits status_file.splits)

lemma isHealthy_call: "isHealthy_call w = (isHealthy w, w)"
  by (simp add: isHealthy_call_def isHealthy_def getStatus_call isProcessRunning_call_def
        isProcessRunning_def process_kill_def split: option.splits)

lemma getLogs_call: "getLogs_call n w = (getLogs n w, w)"
  by (simp add: getLogs_call_def getLogs_def existsSync_def readFileSync_def Let_def
        split: option.splits)

lemma startDaemon_record:
  assumes s: "startDaemon env (Some q) w = Inr (st, w')"
  shows "st = \<lparr>pid = q, startTime = startTime st, status = ''running'',
               lastRefresh = None, nextRefresh = None, refreshCount = 0\<rparr>"
    and "\<exists>st'. statusFile w' = Some (Parsed st') \<and> pid st' = q \<and> status st' = ''running''
           \<and> startTime st' = startTime st \<and> refreshCount st' = 0"
    and "(\<exists>v. stop_try env w = Inr v) \<Longrightarrow> statusFile w' = Some (Parsed st)"
    and "q \<in> set (exitHandlers w')" and "alive w' q"
proof -
  obtain w1 where w1: "stopDaemon env w = Inr w1"
    by (cases "stop_try env w") (auto simp: stopDaemon_def)
  have q: "q \<noteq> 0" using s by (auto simp: startDaemon_def w1 Let_def split: if_splits)
  let ?w5 = "w1\<lparr>daemonProcess := Some \<lparr>child_pid = Some q\<rparr>, alive := (alive w1)(q := True),
                pidFile := Some (toString q), exitHandlers := exitHandlers w1 @ [q]\<rparr>"
  have st: "st = \<lparr>pid = q, startTime = clock w1, status = ''running'',
               lastRefresh = None, nextRefresh = None, refreshCount = 0\<rparr>"
    and w': "w' = controller_updateStatus
                          \<lparr>set_pid = Some q, set_startTime = Some (clock w1),
                           set_status = Some ''running'', set_lastRefresh = None,
                           set_nextRefresh = None, set_refreshCount = Some 0\<rparr> ?w5"
    using s q by (simp_all add: startDaemon_def w1 Let_def)
  show "st = \<lparr>pid = q, startTime = startTime st, status = ''running'',
               lastRefresh = None, nextRefresh = None, refreshCount = 0\<rparr>"
    by (simp add: st)
  show "\<exists>st'. statusFile w' = Some (Parsed st') \<and> pid st' = q \<and> status st' = ''running''
           \<and> startTime st' = startTime st \<and> refreshCount st' = 0"
    by (simp add: w' st controller_updateStatus_statusFile overlay_def)
  show "q \<in> set (exitHandlers w')" "alive w' q"
    by (simp_all add: w' controller_updateStatus_def Let_def)
  show "statusFile w' = Some (Parsed st)" if "\<exists>v. stop_try env w = Inr v"
  proof -
    from that obtain v where "stop_try env w = Inr v" by blast
    then obtain u where "v = (cleanup_files u)\<lparr>daemonProcess := None\<rparr>"
      using stop_try_cases [of env w] by auto
    with \<open>stop_try env w = Inr v\<close> w1 have "statusFile w1 = None"
      by (auto simp: stopDaemon_def cleanup_files_def)
    then show ?thesis
      by (simp add: w' st controller_updateStatus_statusFile overlay_def getStatus_def)
  qed
qed


text \<open>
  Claim C4, as the code has it. The controller changes the status file, or writes it,
  in three places only: in \<^verbatim>\<open>startDaemon\<close> (which stops what ran before and writes the
  initial record of the new child), in \<^verbatim>\<open>stopDaemon\<close> (which removes the file), and
  in the \<^verbatim>\<open>exit\<close> listener that \<^verbatim>\<open>startDaemon\<close> registers on the child. The queries
  (\<^verbatim>\<open>getStatus\<close>, \<^verbatim>\<open>isHealthy\<close>, \<^verbatim>\<open>getLogs\<close>) leave the machine as it is, and so
  does the listener of a child that is alive. Once its child has ended, the listener
  reads the file, sets status \<^verbatim>\<open>stopped\<close> and writes the record back, which is one
  more write of the controller; it starts from a placeholder with pid 0 when the file
  is absent or does not parse. The record \<^verbatim>\<open>startDaemon\<close> returns has the new pid,
  status \<^verbatim>\<open>running\<close> and refresh count 0; the file holds a record with the same four
  values afterwards, and holds exactly the returned record when the body of
  \<^verbatim>\<open>stopDaemon\<close> did not fail; the child is alive and a listener is registered on
  it.
\<close>

theorem C4_controller_writes:
  "((statusFile (controller_step op w) \<noteq> statusFile w
       \<or> statusWrites (controller_step op w) \<noteq> statusWrites w) \<longrightarrow>
      (\<exists>env spawned. op = StartDaemon env spawned)
      \<or> (\<exists>env. op = StopDaemon env)
      \<or> (\<exists>p. op = ExitEvent p \<and> p \<in> set (exitHandlers w) \<and> \<not> alive w p))
   \<and> (op = GetStatus \<or> op = IsHealthy \<or> (\<exists>n. op = GetLogs n) \<longrightarrow> controller_step op w = w)
   \<and> (alive w p \<longrightarrow> controller_step (ExitEvent p) w = w)
   \<and> (p \<in> set (exitHandlers w) \<and> \<not> alive w p \<longrightarrow>
        statusFile (controller_step (ExitEvent p) w) =
          Some (Parsed
            (case getStatus w of
               Some st \<Rightarrow> st\<lparr>status := ''stopped''\<rparr>
             | None \<Rightarrow> \<lparr>pid = 0, startTime = clock w, status = ''stopped'',
                         lastRefresh = None, nextRefresh = None, refreshCount = 0\<rparr>))
        \<and> statusWrites (controller_step (ExitEvent p) w) = Suc (statusWrites w))
   \<and> (\<forall>env q st w'. startDaemon env (Some q) w = Inr (st, w') \<longrightarrow>
        st = \<lparr>pid = q, startTime = startTime st, status = ''running'',
               lastRefresh = None, nextRefresh = None, refreshCount = 0\<rparr>
        \<and> (\<exists>st'. statusFile w' = Some (Parsed st') \<and> pid st' = q \<and> status st' = ''running''
               \<and> startTime st' = startTime st \<and> refreshCount st' = 0)
        \<and> ((\<exists>v. stop_try env w = Inr v) \<longrightarrow> statusFile w' = Some (Parsed st))
        \<and> q \<in> set (exitHandlers w') \<and> alive w' q)"
proof -
  have a: "(\<exists>env spawned. op = StartDaemon env spawned)
      \<or> (\<exists>env. op = StopDaemon env)
      \<or> (\<exists>p. op = ExitEvent p \<and> p \<in> set (exitHandlers w) \<and> \<not> alive w p)"
    if "statusFile (controller_step op w) \<noteq> statusFile w
       \<or> statusWrites (controller_step op w) \<noteq> statusWrites w"
    using that
    by (cases op)
       (auto simp: controller_step_def deliver_exit_statusFile deliver_exit_statusWrites
          getStatus_call isHealthy_call getLogs_call split: if_splits)
  have b: "controller_step op w = w"
    if "op = GetStatus \<or> op = IsHealthy \<or> (\<exists>n. op = GetLogs n)"
    using that by (auto simp: controller_step_def getStatus_call isHealthy_call getLogs_call)
  have c: "controller_step (ExitEvent p) w = w" if "alive w p"
    using that by (simp add: controller_step_def deliver_exit_def)
  have d: "statusFile (controller_step (ExitEvent p) w) =
          Some (Parsed
            (case getStatus w of
               Some st \<Rightarrow> st\<lparr>status := ''stopped''\<rparr>
             | None \<Rightarrow> \<lparr>pid = 0, startTime = clock w, status = ''stopped'',
                         lastRefresh = None, nextRefresh = None, refreshCount = 0\<rparr>))
        \<and> statusWrites (controller_step (ExitEvent p) w) = Suc (statusWrites w)"
    if "p \<in> set (exitHandlers w) \<and> \<not> alive w p"
    using that
    by (simp add: controller_step_def deliver_exit_statusFile deliver_exit_statusWrites)
  have e: "st = \<lparr>pid = q, startTime = startTime st, status = ''running'',
               lastRefresh = None, nextRefresh = None, refreshCount = 0\<rparr>
        \<and> (\<exists>st'. statusFile w' = Some (Parsed st') \<and> pid st' = q \<and> status st' = ''running''
               \<and> startTime st' = startTime st \<and> refreshCount st' = 0)
        \<and> ((\<exists>v. stop_try env w = Inr v) \<longrightarrow> statusFile w' = Some (Parsed st))
        \<and> q \<in> set (exitHandlers w') \<and> alive w' q"
    if s: "startDaemon env (Some q) w = Inr (st, w')" for env q st w'
    using startDaemon_record [OF s] by blast
  show ?thesis
    by (intro conjI allI impI) (simp_all add: a b c d e)
qed


theorem C4_controller_writes_witness:
  "controller_step IsHealthy
       \<lparr>clock = 5000,
        statusFile = Some (Parsed \<lparr>pid = 100, startTime = 0, status = ''running'',
          lastRefresh = Some 1000, nextRefresh = Some 1801000, refreshCount = 1\<rparr>),
        pidFile = Some (utf16 ''100''), logFile = None, alive = (\<lambda>p. p = 100),
        daemonProcess = Some \<lparr>child_pid = Some 100\<rparr>, exitHandlers = [100],
        statusWrites = 1\<rparr>
     = \<lparr>clock = 5000,
        statusFile = Some (Parsed \<lparr>pid = 100, startTime = 0, status = ''running'',
          lastRefresh = Some 1000, nextRefresh = Some 1801000, refreshCount = 1\<rparr>),
        pidFile = Some (utf16 ''100''), logFile = None, alive = (\<lambda>p. p = 100),
        daemonProcess = Some \<lparr>child_pid = Some 100\<rparr>, exitHandlers = [100],
        statusWrites = 1\<rparr>
   \<and> controller_step (ExitEvent 100)
       \<lparr>clock = 5000,
        statusFile = Some (Parsed \<lparr>pid = 100, startTime = 0, status = ''running'',
          lastRefresh = Some 1000, nextRefresh = Some 1801000, refreshCount = 1\<rparr>),
        pidFile = Some (utf16 ''100''), logFile = None, alive = (\<lambda>p. p = 100),
        daemonProcess = Some \<lparr>child_pid = Some 100\<rparr>, exitHandlers = [100],
        statusWrites = 1\<rparr>
     = \<lparr>clock = 5000,
        statusFile = Some (Parsed \<lparr>pid = 100, startTime = 0, status = ''running'',
          lastRefresh = Some 1000, nextRefresh = Some 1801000, refreshCount = 1\<rparr>),
        pidFile = Some (utf16 ''100''), logFile = None, alive = (\<lambda>p. p = 100),
        daemonProcess = Some \<lparr>child_pid = Some 100\<rparr>, exitHandlers = [100],
        statusWrites = 1\<rparr>
   \<and> statusFile (controller_step (ExitEvent 100)
       \<lparr>clock = 9000, statusFile = Some Unparsable,
        pidFile = Some (utf16 ''100''), logFile = None, alive = (\<lambda>p. False),
        daemonProcess = Some \<lparr>child_pid = Some 100\<rparr>, exitHandlers = [100],
        statusWrites = 1\<rparr>)
     = Some (Parsed \<lparr>pid = 0, startTime = 9000, status = ''stopped'',
          lastRefresh = None, nextRefresh = None, refreshCount = 0\<rparr>)
   \<and> statusWrites (controller_step (ExitEvent 100)
       \<lparr>clock = 9000, statusFile = Some Unparsable,
        pidFile = Some (utf16 ''100''), logFile = None, alive = (\<lambda>p. False),
        daemonProcess = Some \<lparr>child_pid = Some 100\<rparr>, exitHandlers = [100],
        statusWrites = 1\<rparr>) = 2
   \<and> (\<exists>st w'. startDaemon
          \<lparr>gone_before_term = False, gone_in_grace = False, gone_before_kill = False\<rparr>
          (Some 100)
          \<lparr>clock = 0, statusFile = None, pidFile = None, logFile = None,
           alive = (\<lambda>p. False), daemonProcess = None, exitHandlers = [], statusWrites = 0\<rparr>
        = Inr (st, w')
        \<and> st = \<lparr>pid = 100, startTime = 0, status = ''running'',
                 lastRefresh = None, nextRefresh = None, refreshCount = 0\<rparr>
        \<and> statusFile w' = Some (Parsed st) \<and> 100 \<in> set (exitHandlers w') \<and> alive w' 100)"
proof -
  let ?W = "\<lparr>clock = 5000,
        statusFile = Some (Parsed \<lparr>pid = 100, startTime = 0, status = ''running'',
          lastRefresh = Some 1000, nextRefresh = Some 1801000, refreshCount = 1\<rparr>),
        pidFile = Some (utf16 ''100''), logFile = None, alive = (\<lambda>p. p = 100),
        daemonProcess = Some \<lparr>child_pid = Some 100\<rparr>, exitHandlers = [100],
        statusWrites = 1\<rparr>"
  let ?V = "\<lparr>clock = 9000, statusFile = Some Unparsable,
        pidFile = Some (utf16 ''100''), logFile = None, alive = (\<lambda>p. False),
        daemonProcess = Some \<lparr>child_pid = Some 100\<rparr>, exitHandlers = [100],
        statusWrites = 1\<rparr>"
  let ?E = "\<lparr>gone_before_term = False, gone_in_grace = False, gone_before_kill = False\<rparr>"
  let ?Z = "\<lparr>clock = 0, statusFile = None, pidFile = None, logFile = None,
           alive = (\<lambda>p. False), daemonProcess = None, exitHandlers = [], statusWrites = 0\<rparr>"
  have a: "controller_step IsHealthy ?W = ?W"
    using C4_controller_writes [of IsHealthy ?W 100] by simp
  have b: "controller_step (ExitEvent 100) ?W = ?W"
    using C4_controller_writes [of GetStatus ?W 100] by simp
  have c: "statusFile (controller_step (ExitEvent 100) ?V)
      = Some (Parsed \<lparr>pid = 0, startTime = 9000, status = ''stopped'',
          lastRefresh = None, nextRefresh = None, refreshCount = 0\<rparr>)
    \<and> statusWrites (controller_step (ExitEvent 100) ?V) = 2"
    using C4_controller_writes [of GetStatus ?V 100] by (simp add: getStatus_def)
  obtain st w' where s: "startDaemon ?E (Some 100) ?Z = Inr (st, w')"
    by (simp add: startDaemon_def stopDaemon_def stop_try_def target_pid_def Let_def)
  have t: "\<exists>v. stop_try ?E ?Z = Inr v"
    by (simp add: stop_try_def target_pid_def)
  note r = C4_controller_writes [of GetStatus ?Z 100, THEN conjunct2, THEN conjunct2,
      THEN conjunct2, THEN conjunct2, rule_format, OF s]
  have st: "st = \<lparr>pid = 100, startTime = 0, status = ''running'',
                 lastRefresh = None, nextRefresh = None, refreshCount = 0\<rparr>"
    using s by (simp add: startDaemon_def stopDaemon_def stop_try_def target_pid_def Let_def
        cleanup_files_def) 
  have d: "statusFile w' = Some (Parsed st) \<and> 100 \<in> set (exitHandlers w') \<and> alive w' 100"
    using r t by simp
  show ?thesis
    using a b c by (intro conjI exI [where x = st] exI [where x = w']) (simp_all add: s st [symmetric] d)
qed

text \<open>
  The claim as stated fails. A controller starts a daemon (pid 100) and writes the
  initial record: its first write. The daemon runs its six hours, writes its last
  record with status \<^verbatim>\<open>stopped\<close> and exits. The exit event is delivered, and the
  listener writes the status file a second time (the content stays as the daemon left
  it): a write after the initial record that is made by the controller and is neither
  the initial write nor the deletion. When the daemon has ended without writing (it was
  killed from outside), the same write turns the record on file from \<^verbatim>\<open>running\<close> to
  \<^verbatim>\<open>stopped\<close>.
\<close>

theorem C4_counterexample:
  "statusWrites (controller_step
       (StartDaemon \<lparr>gone_before_term = False, gone_in_grace = False, gone_before_kill = False\<rparr>
          (Some 100))
       \<lparr>clock = 0, statusFile = None, pidFile = None, logFile = None,
        alive = (\<lambda>p. False), daemonProcess = None, exitHandlers = [], statusWrites = 0\<rparr>) = 1
   \<and> statusWrites (controller_step (ExitEvent 100)
       ((controller_step
          (StartDaemon \<lparr>gone_before_term = False, gone_in_grace = False, gone_before_kill = False\<rparr>
             (Some 100))
          \<lparr>clock = 0, statusFile = None, pidFile = None, logFile = None,
           alive = (\<lambda>p. False), daemonProcess = None, exitHandlers = [], statusWrites = 0\<rparr>)
        \<lparr>clock := 21600200,
          statusFile := Some (Parsed \<lparr>pid = 100, startTime = 150, status = ''stopped'',
            lastRefresh = Some 19800150, nextRefresh = Some 21600150, refreshCount = 12\<rparr>),
          alive := (\<lambda>p. False)\<rparr>)) = 2
   \<and> statusFile (controller_step (ExitEvent 100)
       ((controller_step
          (StartDaemon \<lparr>gone_before_term = False, gone_in_grace = False, gone_before_kill = False\<rparr>
             (Some 100))
          \<lparr>clock = 0, statusFile = None, pidFile = None, logFile = None,
           alive = (\<lambda>p. False), daemonProcess = None, exitHandlers = [], statusWrites = 0\<rparr>)
        \<lparr>clock := 21600200,
          statusFile := Some (Parsed \<lparr>pid = 100, startTime = 150, status = ''stopped'',
            lastRefresh = Some 19800150, nextRefresh = Some 21600150, refreshCount = 12\<rparr>),
          alive := (\<lambda>p. False)\<rparr>))
     = Some (Parsed \<lparr>pid = 100, startTime = 150, status = ''stopped'',
            lastRefresh = Some 19800150, nextRefresh = Some 21600150, refreshCount = 12\<rparr>)
   \<and> statusFile (controller_step (ExitEvent 100)
       ((controller_step
          (StartDaemon \<lparr>gone_before_term = False, gone_in_grace = False, gone_before_kill = False\<rparr>
             (Some 100))
          \<lparr>clock = 0, statusFile = None, pidFile = None, logFile = None,
           alive = (\<lambda>p. False), daemonProcess = None, exitHandlers = [], statusWrites = 0\<rparr>)
        \<lparr>clock := 5000, alive := (\<lambda>p. False)\<rparr>))
     = Some (Parsed \<lparr>pid = 100, startTime = 0, status = ''stopped'',
            lastRefresh = None, nextRefresh = None, refreshCount = 0\<rparr>)"
  by code_simp


section \<open>The run of the daemon\<close>

lemma tick_duration_nonneg: "0 \<le> tick_duration e"
  by (simp add: tick_duration_def)

lemma refresh_success_fields:
  assumes "\<not> mint_fails e" and "\<not> propagation_fails e"
  shows "this_refreshCount (snd (refreshTokenAndAuth e w)) = this_refreshCount w + 1"
    and "statusFile w = Some (Parsed st) \<Longrightarrow>
           \<exists>st'. statusFile (snd (refreshTokenAndAuth e w)) = Some (Parsed st')
                 \<and> status st' = status st"
    and "statusFile w = None \<Longrightarrow>
           \<exists>st'. statusFile (snd (refreshTokenAndAuth e w)) = Some (Parsed st')
                 \<and> status st' = ''running''"
proof -
  obtain r where r: "auth e = Resolved r"
    using assms(1) by (cases "auth e") (auto simp: mint_fails_def)
  note s = refresh_success [OF assms r]
  show "this_refreshCount (snd (refreshTokenAndAuth e w)) = this_refreshCount w + 1"
    unfolding s by simp
  show "statusFile w = Some (Parsed st) \<Longrightarrow>
           \<exists>st'. statusFile (snd (refreshTokenAndAuth e w)) = Some (Parsed st')
                 \<and> status st' = status st"
    unfolding s by (simp add: daemon_updateStatus_def overlay_def no_updates_def)
  show "statusFile w = None \<Longrightarrow>
           \<exists>st'. statusFile (snd (refreshTokenAndAuth e w)) = Some (Parsed st')
                 \<and> status st' = ''running''"
    unfolding s by (simp add: daemon_updateStatus_def overlay_def no_updates_def)
qed

lemma shutdown_fields:
  "exitCode (shutdown w) = Some 0"
  "clock (shutdown w) = clock w"
  "ticks (shutdown w) = ticks w"
  "timers (shutdown w) =
     filter (\<lambda>t. Some (tid t) \<noteq> refreshTimer w \<and> Some (tid t) \<noteq> maxRuntimeTimer w) (timers w)"
  "statusFile (shutdown w) =
     statusFile (daemon_updateStatus (no_updates\<lparr>set_status := Some ''stopped''\<rparr>) w)"
  by (auto simp: shutdown_def process_exit_def clearTimeout_def Let_def daemon_updateStatus_def
      split: option.splits status_file.splits intro: filter_cong)

lemma turn_completes:
  assumes w: "waiting T k c w"
    and ok: "\<not> mint_fails (envs (Suc k))" "\<not> propagation_fails (envs (Suc k))"
    and before: "c + 1800000 < T + 21600000"
    and inside: "c + 1800000 + tick_duration (envs (Suc k)) \<le> T + 21600000"
  shows "waiting T (Suc k) (c + 1800000 + tick_duration (envs (Suc k))) (loop_turn envs w)"
proof -
  let ?e = "envs (Suc k)"
  from w obtain r st where r: "refreshTimer w = Some r" "r \<noteq> 1" 
    and tm: "timers w =
                    [\<lparr>tid = r, due = c + 1800000, callback = RefreshTick\<rparr>,
                     \<lparr>tid = 1, due = T + 21600000, callback = MaxRuntime\<rparr>]
                  \<or> timers w =
                    [\<lparr>tid = 1, due = T + 21600000, callback = MaxRuntime\<rparr>,
                     \<lparr>tid = r, due = c + 1800000, callback = RefreshTick\<rparr>]"
    and st: "statusFile w = Some (Parsed st)" "status st = ''running''"
    and rest: "exitCode w = None" "clock w = c" "ticks w = Suc k"
      "config w = \<lparr>refreshIntervalMinutes = 30, maxRuntimeHours = 6\<rparr>"
      "maxRuntimeTimer w = Some 1" "1 < nextTid w"
    by (auto simp: waiting_def split: option.splits status_file.splits)
  let ?R = "\<lparr>tid = r, due = c + 1800000, callback = RefreshTick\<rparr>"
  let ?M = "\<lparr>tid = 1, due = T + 21600000, callback = MaxRuntime\<rparr>"
  have e: "earliest (timers w) = Some ?R"
    using tm before by auto
  let ?w1 = "fire ?R w"
  have w1: "timers ?w1 = [?M]" "clock ?w1 = c + 1800000" "ticks ?w1 = Suc k"
    using tm r rest by (auto simp: fire_def)
  have turn: "loop_turn envs w = scheduledRefresh ?e ?w1"
    using rest e w1 inside by (simp add: loop_turn_def Let_def)
  let ?v = "snd (refreshTokenAndAuth ?e ?w1)"
  have sf1: "statusFile ?w1 = Some (Parsed st)" using st by (simp add: fire_def)
  obtain st' where st': "statusFile ?v = Some (Parsed st')" "status st' = ''running''"
    using refresh_success_fields(2) [OF ok sf1] st(2) by auto
  show ?thesis
    unfolding turn scheduledRefresh_eq waiting_def
    using st' r rest w1
    by (simp add: scheduleNextRefresh_fields refresh_frame refresh_clock fire_def)
qed

lemma start_waiting:
  assumes ok: "\<not> mint_fails e" "\<not> propagation_fails e"
    and h: "statusFile h \<noteq> Some Unparsable"
  shows "waiting (clock h + tick_duration e) 0 (clock h + tick_duration e)
           (start e (TokenRefreshDaemon_new \<lparr>refreshIntervalMinutes = 30, maxRuntimeHours = 6\<rparr> p h))"
proof -
  let ?d = "TokenRefreshDaemon_new \<lparr>refreshIntervalMinutes = 30, maxRuntimeHours = 6\<rparr> p h"
  let ?w1 = "daemon_updateStatus
                 \<lparr>set_pid = Some (process_pid ?d), set_startTime = Some (clock ?d),
                  set_status = Some ''running'', set_lastRefresh = None,
                  set_nextRefresh = None, set_refreshCount = Some 0\<rparr> ?d"
  have "\<exists>st. statusFile ?w1 = Some (Parsed st) \<and> status st = ''running''"
  proof (cases "statusFile h")
    case None
    then show ?thesis
      by (simp add: daemon_updateStatus_def TokenRefreshDaemon_new_def overlay_def)
  next
    case (Some a)
    with h obtain cur where "a = Parsed cur" by (cases a) auto
    with Some show ?thesis
      by (simp add: daemon_updateStatus_def TokenRefreshDaemon_new_def overlay_def)
  qed
  then obtain st where st: "statusFile ?w1 = Some (Parsed st)" "status st = ''running''"
    by blast
  let ?v = "snd (refreshTokenAndAuth e ?w1)"
  have r: "fst (refreshTokenAndAuth e ?w1) = Inr ()"
    using ok by (simp add: refresh_result)
  obtain st' where st': "statusFile ?v = Some (Parsed st')" "status st' = ''running''"
    using refresh_success_fields(2) [OF ok st(1)] st(2) by auto
  have s: "start e ?d =
      (let w3 = scheduleNextRefresh ?v;
           (i, w4) = setTimeout MaxRuntime (maxRuntimeHours (config w3) * 60 * 60 * 1000) w3
       in w4\<lparr>maxRuntimeTimer := Some i\<rparr>)"
    using r by (cases "refreshTokenAndAuth e ?w1") (simp add: start_def Let_def)
  show ?thesis
    unfolding s waiting_def using st'
    by (simp add: Let_def setTimeout_def scheduleNextRefresh_fields refresh_frame refresh_clock
          TokenRefreshDaemon_new_def)
qed

lemma stopped_status:
  "(case statusFile w of Some (Parsed st) \<Rightarrow> status st = s | _ \<Rightarrow> False) \<Longrightarrow>
   (case statusFile (daemon_updateStatus (no_updates\<lparr>set_status := Some ''stopped''\<rparr>) w) of
      Some (Parsed st) \<Rightarrow> status st = ''stopped'' | _ \<Rightarrow> False)"
  by (auto simp: daemon_updateStatus_def overlay_def no_updates_def
      split: option.splits status_file.splits)

lemma turn_preempted:
  assumes w: "waiting T k c w"
    and ok: "\<not> mint_fails (envs (Suc k))"
    and before: "c + 1800000 < T + 21600000"
    and cut: "T + 21600000 < c + 1800000 + tick_duration (envs (Suc k))"
  shows "stopped_at (T + 21600000) (Suc (Suc k)) (loop_turn envs w)"
proof -
  let ?e = "envs (Suc k)"
  from w obtain r where r: "refreshTimer w = Some r" "r \<noteq> 1"
    and tm: "timers w =
                    [\<lparr>tid = r, due = c + 1800000, callback = RefreshTick\<rparr>,
                     \<lparr>tid = 1, due = T + 21600000, callback = MaxRuntime\<rparr>]
                  \<or> timers w =
                    [\<lparr>tid = 1, due = T + 21600000, callback = MaxRuntime\<rparr>,
                     \<lparr>tid = r, due = c + 1800000, callback = RefreshTick\<rparr>]"
    and st: "case statusFile w of Some (Parsed st) \<Rightarrow> status st = ''running'' | _ \<Rightarrow> False"
    and rest: "exitCode w = None" "clock w = c" "ticks w = Suc k"
      "maxRuntimeTimer w = Some 1"
    by (auto simp: waiting_def split: option.splits)
  let ?R = "\<lparr>tid = r, due = c + 1800000, callback = RefreshTick\<rparr>"
  let ?M = "\<lparr>tid = 1, due = T + 21600000, callback = MaxRuntime\<rparr>"
  have e: "earliest (timers w) = Some ?R"
    using tm before by auto
  let ?w1 = "fire ?R w"
  have w1: "timers ?w1 = [?M]" "clock ?w1 = c + 1800000" "ticks ?w1 = Suc k"
    using tm r rest by (auto simp: fire_def)
  let ?w2 = "fire ?M (?w1\<lparr>ticks := Suc (ticks ?w1)\<rparr>)"
  have turn: "loop_turn envs w = shutdown ?w2"
    using rest e w1 cut by (simp add: loop_turn_def Let_def)
  have w2: "timers ?w2 = []" "clock ?w2 = T + 21600000" "ticks ?w2 = Suc (Suc k)"
    "statusFile ?w2 = statusFile w"
    using w1 before by (auto simp: fire_def)
  show ?thesis
    unfolding turn stopped_at_def
    using w2 stopped_status [where w = ?w2 and s = "''running''"] st
    by (simp add: shutdown_fields)
qed

lemma turn_max_first:
  assumes w: "waiting T k c w"
    and k: "0 < k"
    and late: "T + 21600000 \<le> c + 1800000"
    and c: "c \<le> T + 21600000"
  shows "stopped_at (T + 21600000) (Suc k) (loop_turn envs w)"
proof -
  from w k obtain r where r: "refreshTimer w = Some r" "1 < r"
    and tm: "timers w =
                    [\<lparr>tid = r, due = c + 1800000, callback = RefreshTick\<rparr>,
                     \<lparr>tid = 1, due = T + 21600000, callback = MaxRuntime\<rparr>]
                  \<or> timers w =
                    [\<lparr>tid = 1, due = T + 21600000, callback = MaxRuntime\<rparr>,
                     \<lparr>tid = r, due = c + 1800000, callback = RefreshTick\<rparr>]"
    and st: "case statusFile w of Some (Parsed st) \<Rightarrow> status st = ''running'' | _ \<Rightarrow> False"
    and rest: "exitCode w = None" "clock w = c" "ticks w = Suc k"
      "maxRuntimeTimer w = Some 1"
    by (auto simp: waiting_def split: option.splits)
  let ?R = "\<lparr>tid = r, due = c + 1800000, callback = RefreshTick\<rparr>"
  let ?M = "\<lparr>tid = 1, due = T + 21600000, callback = MaxRuntime\<rparr>"
  have e: "earliest (timers w) = Some ?M"
    using tm late r by auto
  let ?w1 = "fire ?M w"
  have turn: "loop_turn envs w = shutdown ?w1"
    using rest e by (simp add: loop_turn_def Let_def)
  have w1: "timers ?w1 = [?R]" "clock ?w1 = T + 21600000" "ticks ?w1 = Suc k"
    "statusFile ?w1 = statusFile w" "refreshTimer ?w1 = Some r"
    using tm r rest c by (auto simp: fire_def)
  show ?thesis
    unfolding turn stopped_at_def
    using w1 stopped_status [where w = ?w1 and s = "''running''"] st
    by (simp add: shutdown_fields)
qed

lemma run_exited: "exitCode w \<noteq> None \<Longrightarrow> run n envs w = w"
  by (induction n) (simp_all add: loop_turn_def)

lemma run_add: "run (m + n) envs w = run n envs (run m envs w)"
  by (induction m arbitrary: w) simp_all

lemma run_stopped: "stopped_at c n w \<Longrightarrow> stopped_at c n (run m envs w)"
  by (simp add: run_exited stopped_at_def)

lemma run_Suc_last: "run (Suc n) envs w = loop_turn envs (run n envs w)"
  using run_add [of n 1 envs w] by simp

lemma partial_drift:
  assumes "k \<le> (10::nat)"
  shows "(\<Sum>j = 1..k. tick_duration (envs j)) \<le> (\<Sum>j = 1..10. tick_duration (envs j))"
  by (rule sum_mono2) (use assms in \<open>auto simp: tick_duration_nonneg\<close>)

lemma run_waiting:
  assumes S: "waiting T 0 T w0"
    and ok: "\<forall>j \<le> 11. \<not> mint_fails (envs j) \<and> \<not> propagation_fails (envs j)"
    and drift: "(\<Sum>j = 1..10. tick_duration (envs j)) < 1800000"
  shows "k \<le> 10 \<Longrightarrow>
    waiting T k (T + int k * 1800000 + (\<Sum>j = 1..k. tick_duration (envs j))) (run k envs w0)"
proof (induction k)
  case 0
  then show ?case using S by simp
next
  case (Suc k)
  let ?c = "T + int k * 1800000 + (\<Sum>j = 1..k. tick_duration (envs j))"
  have w: "waiting T k ?c (run k envs w0)" using Suc by simp
  have okk: "\<not> mint_fails (envs (Suc k))" "\<not> propagation_fails (envs (Suc k))"
    using ok Suc.prems by auto
  have dk: "(\<Sum>j = 1..k. tick_duration (envs j)) < 1800000"
    using partial_drift [of k envs] drift Suc.prems by simp
  have dk1: "(\<Sum>j = 1..k. tick_duration (envs j)) + tick_duration (envs (Suc k)) < 1800000"
    using partial_drift [of "Suc k" envs] drift Suc.prems by simp
  have k9: "int k \<le> 9" using Suc.prems by simp
  have before: "?c + 1800000 < T + 21600000" using dk k9 by simp
  have inside: "?c + 1800000 + tick_duration (envs (Suc k)) \<le> T + 21600000"
    using dk1 k9 by simp
  have "waiting T (Suc k) (?c + 1800000 + tick_duration (envs (Suc k)))
          (loop_turn envs (run k envs w0))"
    by (rule turn_completes [where envs = envs and k = k, OF w okk before inside])
  moreover have "?c + 1800000 + tick_duration (envs (Suc k))
      = T + int (Suc k) * 1800000 + (\<Sum>j = 1..Suc k. tick_duration (envs j))"
    by simp
  ultimately show ?case by (simp only: run_Suc_last)
qed

lemma run_to_shutdown:
  assumes S: "waiting T 0 T w0"
    and ok: "\<forall>j \<le> 11. \<not> mint_fails (envs j) \<and> \<not> propagation_fails (envs j)"
    and drift: "(\<Sum>j = 1..10. tick_duration (envs j)) < 1800000"
  shows "stopped_at (T + 21600000) 12 (run 12 envs w0)"
proof -
  let ?c = "T + 10 * 1800000 + (\<Sum>j = 1..10. tick_duration (envs j))"
  have w: "waiting T 10 ?c (run 10 envs w0)"
    using run_waiting [OF S ok drift, of 10] by simp
  have ok11: "\<not> mint_fails (envs (Suc 10))" "\<not> propagation_fails (envs (Suc 10))"
    using ok by auto
  have before: "?c + 1800000 < T + 21600000" using drift by simp
  have nonneg: "0 \<le> (\<Sum>j = 1..10. tick_duration (envs j))"
    by (rule sum_nonneg) (simp add: tick_duration_nonneg)
  have r11: "run 11 envs w0 = loop_turn envs (run 10 envs w0)"
    using run_Suc_last [of 10 envs w0] by simp
  have r12: "run 12 envs w0 = loop_turn envs (run 11 envs w0)"
    using run_Suc_last [of 11 envs w0] by simp
  show ?thesis
  proof (cases "T + 21600000 < ?c + 1800000 + tick_duration (envs (Suc 10))")
    case True
    have "stopped_at (T + 21600000) (Suc (Suc 10)) (loop_turn envs (run 10 envs w0))"
      by (rule turn_preempted [where envs = envs and k = 10, OF w ok11(1) before True])
    then have s: "stopped_at (T + 21600000) 12 (run 11 envs w0)"
      by (simp add: r11)
    then have "exitCode (run 11 envs w0) \<noteq> None" by (simp add: stopped_at_def)
    then have "loop_turn envs (run 11 envs w0) = run 11 envs w0"
      by (simp add: loop_turn_def)
    with s show ?thesis by (simp add: r12)
  next
    case False
    then have inside: "?c + 1800000 + tick_duration (envs (Suc 10)) \<le> T + 21600000"
      by simp
    have w11: "waiting T (Suc 10) (?c + 1800000 + tick_duration (envs (Suc 10)))
        (run 11 envs w0)"
      unfolding r11 by (rule turn_completes [where envs = envs and k = 10, OF w ok11 before inside])
    have late: "T + 21600000 \<le> ?c + 1800000 + tick_duration (envs (Suc 10)) + 1800000"
      using nonneg tick_duration_nonneg [of "envs (Suc 10)"] by simp
    have "stopped_at (T + 21600000) (Suc (Suc 10)) (loop_turn envs (run 11 envs w0))"
      by (rule turn_max_first [where envs = envs, OF w11 _ late inside]) simp
    then show ?thesis by (simp add: r12)
  qed
qed

lemma run_waiting_steps:
  assumes S: "waiting T 0 T w0"
  shows "(\<forall>j. 1 \<le> j \<and> j \<le> k \<longrightarrow> \<not> mint_fails (envs j) \<and> \<not> propagation_fails (envs j))
    \<Longrightarrow> (\<forall>j < k. T + int j * 1800000 + (\<Sum>i = 1..j. tick_duration (envs i)) + 1800000
                    < T + 21600000
                \<and> T + int j * 1800000 + (\<Sum>i = 1..j. tick_duration (envs i)) + 1800000
                    + tick_duration (envs (Suc j)) \<le> T + 21600000)
    \<Longrightarrow> waiting T k (T + int k * 1800000 + (\<Sum>i = 1..k. tick_duration (envs i)))
          (run k envs w0)"
proof (induction k)
  case 0
  then show ?case using S by simp
next
  case (Suc k)
  let ?c = "T + int k * 1800000 + (\<Sum>i = 1..k. tick_duration (envs i))"
  have w: "waiting T k ?c (run k envs w0)" using Suc by simp
  have okk: "\<not> mint_fails (envs (Suc k))" "\<not> propagation_fails (envs (Suc k))"
    using Suc.prems(1) by auto
  have before: "?c + 1800000 < T + 21600000"
    and inside: "?c + 1800000 + tick_duration (envs (Suc k)) \<le> T + 21600000"
    using Suc.prems(2) by auto
  have "waiting T (Suc k) (?c + 1800000 + tick_duration (envs (Suc k)))
          (loop_turn envs (run k envs w0))"
    by (rule turn_completes [where envs = envs and k = k, OF w okk before inside])
  moreover have "?c + 1800000 + tick_duration (envs (Suc k))
      = T + int (Suc k) * 1800000 + (\<Sum>i = 1..Suc k. tick_duration (envs i))"
    by simp
  ultimately show ?case by (simp only: run_Suc_last)
qed

text \<open>
  Claim C2, as the code has it. A daemon configured for 30 minutes and 6 hours, started
  on a status file that is absent or parses, in a run without failures: the timer of a
  scheduled tick is set when the tick before it has ended, so the ticks drift by the
  time they take. When the scheduled ticks 1 to 10 together take less than 30 minutes,
  exactly 12 ticks begin (the initial one and 11 scheduled ones) before the
  maximum-runtime timer fires, 6 hours after the initial tick has ended. At that instant
  the daemon clears both timers, writes status \<^verbatim>\<open>stopped\<close> and exits with code 0;
  a twelfth tick still waiting for an answer is abandoned. Up to the tenth scheduled
  tick the process has not exited. \<open>n\<close> counts turns of the event loop; 12 are enough.
\<close>

theorem C2_twelve_ticks:
  assumes "statusFile h \<noteq> Some Unparsable"
    and "\<forall>k \<le> 11. \<not> mint_fails (envs k) \<and> \<not> propagation_fails (envs k)"
    and "(\<Sum>k = 1..10. tick_duration (envs k)) < 30 * 60 * 1000"
    and "12 \<le> n"
  shows "exitCode (run n envs
       (start (envs 0)
          (TokenRefreshDaemon_new \<lparr>refreshIntervalMinutes = 30, maxRuntimeHours = 6\<rparr> p h))) = Some 0
    \<and> ticks (run n envs
       (start (envs 0)
          (TokenRefreshDaemon_new \<lparr>refreshIntervalMinutes = 30, maxRuntimeHours = 6\<rparr> p h))) = 12
    \<and> timers (run n envs
       (start (envs 0)
          (TokenRefreshDaemon_new \<lparr>refreshIntervalMinutes = 30, maxRuntimeHours = 6\<rparr> p h))) = []
    \<and> clock (run n envs
       (start (envs 0)
          (TokenRefreshDaemon_new \<lparr>refreshIntervalMinutes = 30, maxRuntimeHours = 6\<rparr> p h))) = clock h + tick_duration (envs 0) + 6 * 60 * 60 * 1000
    \<and> (\<exists>st. statusFile (run n envs
       (start (envs 0)
          (TokenRefreshDaemon_new \<lparr>refreshIntervalMinutes = 30, maxRuntimeHours = 6\<rparr> p h))) = Some (Parsed st) \<and> status st = ''stopped'')
    \<and> (\<forall>m \<le> 10. exitCode (run m envs
       (start (envs 0)
          (TokenRefreshDaemon_new \<lparr>refreshIntervalMinutes = 30, maxRuntimeHours = 6\<rparr> p h))) = None
                  \<and> ticks (run m envs
       (start (envs 0)
          (TokenRefreshDaemon_new \<lparr>refreshIntervalMinutes = 30, maxRuntimeHours = 6\<rparr> p h))) = Suc m)"
proof -
  let ?S = "start (envs 0)
          (TokenRefreshDaemon_new \<lparr>refreshIntervalMinutes = 30, maxRuntimeHours = 6\<rparr> p h)"
  let ?T = "clock h + tick_duration (envs 0)"
  have ok0: "\<not> mint_fails (envs 0)" "\<not> propagation_fails (envs 0)"
    using assms(2) by auto
  have S: "waiting ?T 0 ?T ?S"
    by (rule start_waiting [OF ok0 assms(1)])
  have drift: "(\<Sum>j = 1..10. tick_duration (envs j)) < 1800000"
    using assms(3) by simp
  have "stopped_at (?T + 21600000) 12 (run 12 envs ?S)"
    by (rule run_to_shutdown [OF S assms(2) drift])
  then have "stopped_at (?T + 21600000) 12 (run (n - 12) envs (run 12 envs ?S))"
    by (rule run_stopped)
  moreover have "run (n - 12) envs (run 12 envs ?S) = run n envs ?S"
    using run_add [of 12 "n - 12" envs ?S] assms(4) by simp
  ultimately have fin: "stopped_at (?T + 21600000) 12 (run n envs ?S)"
    by simp
  have mid: "exitCode (run m envs ?S) = None \<and> ticks (run m envs ?S) = Suc m"
    if "m \<le> 10" for m
    using run_waiting [OF S assms(2) drift that] by (simp add: waiting_def)
  show ?thesis
    using fin mid
    by (auto simp: stopped_at_def split: option.splits status_file.splits)
qed

theorem C2_twelve_ticks_witness:
  "exitCode (run 12 (\<lambda>k::nat. \<lparr>auth = Resolved \<lparr>auth_token = Some ''ghs_1'', auth_expiresAt = None,
                   auth_installationId = Some 9\<rparr>,
                 git_ok = True, gh_login_ok = True, gh_setup_ok = True,
                 mint_ms = 200, propagate_ms = 300\<rparr>)
       (start ((\<lambda>k::nat. \<lparr>auth = Resolved \<lparr>auth_token = Some ''ghs_1'', auth_expiresAt = None,
                   auth_installationId = Some 9\<rparr>,
                 git_ok = True, gh_login_ok = True, gh_setup_ok = True,
                 mint_ms = 200, propagate_ms = 300\<rparr>) 0)
          (TokenRefreshDaemon_new \<lparr>refreshIntervalMinutes = 30, maxRuntimeHours = 6\<rparr> 77
             \<lparr>clock = 0, statusFile = None, pidFile = None, logFile = None\<rparr>))) = Some 0
   \<and> ticks (run 12 (\<lambda>k::nat. \<lparr>auth = Resolved \<lparr>auth_token = Some ''ghs_1'', auth_expiresAt = None,
                   auth_installationId = Some 9\<rparr>,
                 git_ok = True, gh_login_ok = True, gh_setup_ok = True,
                 mint_ms = 200, propagate_ms = 300\<rparr>)
       (start ((\<lambda>k::nat. \<lparr>auth = Resolved \<lparr>auth_token = Some ''ghs_1'', auth_expiresAt = None,
                   auth_installationId = Some 9\<rparr>,
                 git_ok = True, gh_login_ok = True, gh_setup_ok = True,
                 mint_ms = 200, propagate_ms = 300\<rparr>) 0)
          (TokenRefreshDaemon_new \<lparr>refreshIntervalMinutes = 30, maxRuntimeHours = 6\<rparr> 77
             \<lparr>clock = 0, statusFile = None, pidFile = None, logFile = None\<rparr>))) = 12
   \<and> timers (run 12 (\<lambda>k::nat. \<lparr>auth = Resolved \<lparr>auth_token = Some ''ghs_1'', auth_expiresAt = None,
                   auth_installationId = Some 9\<rparr>,
                 git_ok = True, gh_login_ok = True, gh_setup_ok = True,
                 mint_ms = 200, propagate_ms = 300\<rparr>)
       (start ((\<lambda>k::nat. \<lparr>auth = Resolved \<lparr>auth_token = Some ''ghs_1'', auth_expiresAt = None,
                   auth_installationId = Some 9\<rparr>,
                 git_ok = True, gh_login_ok = True, gh_setup_ok = True,
                 mint_ms = 200, propagate_ms = 300\<rparr>) 0)
          (TokenRefreshDaemon_new \<lparr>refreshIntervalMinutes = 30, maxRuntimeHours = 6\<rparr> 77
             \<lparr>clock = 0, statusFile = None, pidFile = None, logFile = None\<rparr>))) = []
   \<and> clock (run 12 (\<lambda>k::nat. \<lparr>auth = Resolved \<lparr>auth_token = Some ''ghs_1'', auth_expiresAt = None,
                   auth_installationId = Some 9\<rparr>,
                 git_ok = True, gh_login_ok = True, gh_setup_ok = True,
                 mint_ms = 200, propagate_ms = 300\<rparr>)
       (start ((\<lambda>k::nat. \<lparr>auth = Resolved \<lparr>auth_token = Some ''ghs_1'', auth_expiresAt = None,
                   auth_installationId = Some 9\<rparr>,
                 git_ok = True, gh_login_ok = True, gh_setup_ok = True,
                 mint_ms = 200, propagate_ms = 300\<rparr>) 0)
          (TokenRefreshDaemon_new \<lparr>refreshIntervalMinutes = 30, maxRuntimeHours = 6\<rparr> 77
             \<lparr>clock = 0, statusFile = None, pidFile = None, logFile = None\<rparr>))) = 21600500"
proof -
  have h: "statusFile \<lparr>clock = 0, statusFile = None, pidFile = None, logFile = None\<rparr>
      \<noteq> Some Unparsable" by simp
  have ok: "\<forall>k \<le> 11. \<not> mint_fails ((\<lambda>k::nat. \<lparr>auth = Resolved \<lparr>auth_token = Some ''ghs_1'', auth_expiresAt = None,
                   auth_installationId = Some 9\<rparr>,
                 git_ok = True, gh_login_ok = True, gh_setup_ok = True,
                 mint_ms = 200, propagate_ms = 300\<rparr>) k) \<and> \<not> propagation_fails ((\<lambda>k::nat. \<lparr>auth = Resolved \<lparr>auth_token = Some ''ghs_1'', auth_expiresAt = None,
                   auth_installationId = Some 9\<rparr>,
                 git_ok = True, gh_login_ok = True, gh_setup_ok = True,
                 mint_ms = 200, propagate_ms = 300\<rparr>) k)"
    by (simp add: mint_fails_def propagation_fails_def no_usable_token_def)
  have drift: "(\<Sum>k = 1..10. tick_duration ((\<lambda>k::nat. \<lparr>auth = Resolved \<lparr>auth_token = Some ''ghs_1'', auth_expiresAt = None,
                   auth_installationId = Some 9\<rparr>,
                 git_ok = True, gh_login_ok = True, gh_setup_ok = True,
                 mint_ms = 200, propagate_ms = 300\<rparr>) k)) < 30 * 60 * 1000"
    by (simp add: tick_duration_def mint_fails_def no_usable_token_def)
  have n: "(12::nat) \<le> 12" by simp
  show ?thesis
    using C2_twelve_ticks [OF h ok drift n, of 77]
    by (simp add: tick_duration_def mint_fails_def no_usable_token_def)
qed

text \<open>
  The claim as stated fails: in a run without failures whose ticks take four minutes
  each, the eleventh scheduled tick would be due 6 hours and 10 minutes after the
  initial one ended; the maximum-runtime timer fires first, and 11 ticks have begun.
\<close>

theorem C2_counterexample:
  "exitCode (run 12 (\<lambda>k::nat. \<lparr>auth = Resolved \<lparr>auth_token = Some ''ghs_1'', auth_expiresAt = None,
                   auth_installationId = Some 9\<rparr>,
                 git_ok = True, gh_login_ok = True, gh_setup_ok = True,
                 mint_ms = 0, propagate_ms = 240000\<rparr>)
       (start ((\<lambda>k::nat. \<lparr>auth = Resolved \<lparr>auth_token = Some ''ghs_1'', auth_expiresAt = None,
                   auth_installationId = Some 9\<rparr>,
                 git_ok = True, gh_login_ok = True, gh_setup_ok = True,
                 mint_ms = 0, propagate_ms = 240000\<rparr>) 0)
          (TokenRefreshDaemon_new \<lparr>refreshIntervalMinutes = 30, maxRuntimeHours = 6\<rparr> 77
             \<lparr>clock = 0, statusFile = None, pidFile = None, logFile = None\<rparr>))) = Some 0
   \<and> ticks (run 12 (\<lambda>k::nat. \<lparr>auth = Resolved \<lparr>auth_token = Some ''ghs_1'', auth_expiresAt = None,
                   auth_installationId = Some 9\<rparr>,
                 git_ok = True, gh_login_ok = True, gh_setup_ok = True,
                 mint_ms = 0, propagate_ms = 240000\<rparr>)
       (start ((\<lambda>k::nat. \<lparr>auth = Resolved \<lparr>auth_token = Some ''ghs_1'', auth_expiresAt = None,
                   auth_installationId = Some 9\<rparr>,
                 git_ok = True, gh_login_ok = True, gh_setup_ok = True,
                 mint_ms = 0, propagate_ms = 240000\<rparr>) 0)
          (TokenRefreshDaemon_new \<lparr>refreshIntervalMinutes = 30, maxRuntimeHours = 6\<rparr> 77
             \<lparr>clock = 0, statusFile = None, pidFile = None, logFile = None\<rparr>))) = 11"
proof -
  let ?E = "\<lambda>k::nat. \<lparr>auth = Resolved \<lparr>auth_token = Some ''ghs_1'', auth_expiresAt = None,
                   auth_installationId = Some 9\<rparr>,
                 git_ok = True, gh_login_ok = True, gh_setup_ok = True,
                 mint_ms = 0, propagate_ms = 240000\<rparr>"
  let ?S = "start (?E 0)
          (TokenRefreshDaemon_new \<lparr>refreshIntervalMinutes = 30, maxRuntimeHours = 6\<rparr> 77
             \<lparr>clock = 0, statusFile = None, pidFile = None, logFile = None\<rparr>)"
  have d: "tick_duration (?E k) = 240000" for k :: nat
    by (simp add: tick_duration_def mint_fails_def no_usable_token_def)
  have ok: "\<not> mint_fails (?E k)" "\<not> propagation_fails (?E k)" for k :: nat
    by (simp_all add: mint_fails_def propagation_fails_def no_usable_token_def)
  have "waiting (clock \<lparr>clock = 0, statusFile = None, pidFile = None, logFile = None\<rparr>
                  + tick_duration (?E 0)) 0
          (clock \<lparr>clock = 0, statusFile = None, pidFile = None, logFile = None\<rparr>
                  + tick_duration (?E 0)) ?S"
    by (rule start_waiting [OF ok]) simp
  then have S: "waiting 240000 0 240000 ?S"
    by (simp add: d)
  have "waiting 240000 10
          (240000 + int 10 * 1800000 + (\<Sum>i = 1..10. tick_duration (?E i)))
          (run 10 ?E ?S)"
    by (rule run_waiting_steps [OF S]) (simp_all add: ok d)
  then have w10: "waiting 240000 10 20640000 (run 10 ?E ?S)"
    by (simp add: d)
  have "stopped_at (240000 + 21600000) (Suc 10) (loop_turn ?E (run 10 ?E ?S))"
    by (rule turn_max_first [where envs = ?E, OF w10]) simp_all
  then have s11: "stopped_at 21840000 11 (run 11 ?E ?S)"
    using run_Suc_last [of 10 ?E ?S] by simp
  then have "stopped_at 21840000 11 (run 1 ?E (run 11 ?E ?S))"
    by (rule run_stopped)
  then have "stopped_at 21840000 11 (run 12 ?E ?S)"
    using run_add [of 11 1 ?E ?S] by simp
  then show ?thesis by (simp add: stopped_at_def)
qed

end
